theory Spec2Isabelle
  imports Complex_Main "HOL-Library.Word" "HOL-Library.Signed_Division"
begin

unbundle bit_operations_syntax

chapter \<open>A minimal OpenVPN client: wire framer, ping summary and multiplexer\<close>

text \<open>
  The development embeds three source files: \<^verbatim>\<open>vpn/framing.go\<close> (the length prefix of
  stream transports), \<^verbatim>\<open>pinger.go\<close> (the summary line of the ICMP probe) and
  \<^verbatim>\<open>vpn/muxer.go\<close> (the multiplexer). Definitions come first, theorems after them.
\<close>

section \<open>Bytes\<close>

type_synonym byte = "8 word"
type_synonym bytes = "byte list"

section \<open>The wire framer (vpn/framing.go)\<close>

text \<open>
  \<^verbatim>\<open>binary.BigEndian.PutUint16(l, v)\<close> of the Go library stores \<^verbatim>\<open>byte(v >> 8)\<close> in
  \<^verbatim>\<open>l[0]\<close> and \<^verbatim>\<open>byte(v)\<close> in \<^verbatim>\<open>l[1]\<close>; \<^verbatim>\<open>binary.BigEndian.Uint16\<close> reads
  them back as \<^verbatim>\<open>uint16(b[1]) | uint16(b[0])<<8\<close>.
\<close>

definition PutUint16 :: "16 word \<Rightarrow> bytes" where
  "PutUint16 v = [ucast (drop_bit 8 v), ucast v]"

definition Uint16 :: "byte \<Rightarrow> byte \<Rightarrow> 16 word" where
  "Uint16 b0 b1 = ucast b1 OR push_bit 8 (ucast b0)"

text \<open>
  \<^verbatim>\<open>
  func toSizeFrame(b []byte) []byte {
      l := make([]byte, 2)
      binary.BigEndian.PutUint16(l, uint16(len(b)))
      return append(l, b...)
  }
  \<close>
  The conversion \<^verbatim>\<open>uint16(len(b))\<close> keeps the low 16 bits of the length, which is what
  \<open>of_nat\<close> into \<open>16 word\<close> does.
\<close>

definition toSizeFrame :: "bytes \<Rightarrow> bytes" where
  "toSizeFrame b = (let l = PutUint16 (of_nat (length b)) in l @ b)"

text \<open>
  The big-endian 16-bit encoding of a number, as the specification words it: the high
  byte first, then the low byte.
\<close>

definition be16 :: "nat \<Rightarrow> bytes" where
  "be16 n = [of_nat (n div 256), of_nat (n mod 256)]"

text \<open>
  Modelled from the spec: the reading side of the framer (\<^verbatim>\<open>readPacket\<close> on a stream
  transport) is not among the source files. The specification says that on stream
  transports each packet is preceded by its big-endian 16-bit length; \<open>unframe\<close> reads
  that length and returns as many bytes of what follows, or nothing when the stream is
  shorter than the prefix announces.
\<close>

definition unframe :: "bytes \<Rightarrow> bytes option" where
  "unframe s = (case s of
      b0 # b1 # rest \<Rightarrow>
        (let n = unat (Uint16 b0 b1) in if n \<le> length rest then Some (take n rest) else None)
    | _ \<Rightarrow> None)"

section \<open>The ping summary (pinger.go)\<close>











section \<open>The multiplexer (vpn/muxer.go): errors, data and collaborators\<close>

subsection \<open>Errors\<close>

text \<open>
  Go errors are values. \<open>ErrBadHandshake\<close> is declared in \<^verbatim>\<open>muxer.go\<close>; the other
  sentinels (\<^verbatim>\<open>ErrBadTLSHandshake\<close>, \<^verbatim>\<open>errBadControlMessage\<close>, \<^verbatim>\<open>errBadAuth\<close>,
  \<^verbatim>\<open>errBadServerReply\<close>) are declared in files that are not among the sources and are
  kept as distinct constants. \<open>EOF\<close> is \<^verbatim>\<open>io.EOF\<close>; \<open>Foreign\<close> stands for any error a
  collaborator makes up. The three \<open>Errorf\<close> constructors are the three shapes of
  \<^verbatim>\<open>fmt.Errorf\<close> in the file: \<^verbatim>\<open>%w\<close> wraps its argument, \<^verbatim>\<open>%s\<close> only prints it.
  \<open>NilTLS\<close> is the panic of a method call on the nil \<^verbatim>\<open>m.tls\<close>; every caller in
  the file hands an error straight up, so the panic travels the same way as an error.
\<close>

datatype error =
    ErrBadHandshake
  | ErrBadTLSHandshake
  | errBadControlMessage
  | errBadAuth
  | errBadServerReply
  | EOF
  | Foreign string
  | Errorf_w_text error string
  | Errorf_w_s error error
  | Errorf_s_w error error
  | NilTLS

text \<open>
  \<^verbatim>\<open>errors.Is\<close> of the Go library: the error itself or anything it wraps.
  \<open>Errorf_w_text e t\<close> is \<^verbatim>\<open>fmt.Errorf("%w:%s", e, "t")\<close>, \<open>Errorf_w_s e x\<close> is
  \<^verbatim>\<open>fmt.Errorf("%w:%s", e, x)\<close> or \<^verbatim>\<open>fmt.Errorf("%w: %s", e, x)\<close> for an error \<open>x\<close>
  (it wraps \<open>e\<close>) and \<open>Errorf_s_w x e\<close> is \<^verbatim>\<open>fmt.Errorf("%s: %w", x, e)\<close> (it wraps
  \<open>e\<close>).
\<close>

fun errors_Is :: "error \<Rightarrow> error \<Rightarrow> bool" where
  "errors_Is (Errorf_w_text e t) target = (Errorf_w_text e t = target \<or> errors_Is e target)"
| "errors_Is (Errorf_w_s e x) target = (Errorf_w_s e x = target \<or> errors_Is e target)"
| "errors_Is (Errorf_s_w x e) target = (Errorf_s_w x e = target \<or> errors_Is e target)"
| "errors_Is e target = (e = target)"

subsection \<open>Data the multiplexer touches\<close>

type_synonym sessionID = bytes
type_synonym packetID = "32 word"

text \<open>
  Of \<^verbatim>\<open>session\<close>, \<^verbatim>\<open>tunnel\<close> and \<^verbatim>\<open>packet\<close> (declared outside the sources) the file
  reads and writes the fields below; whatever else a session holds (counters, key
  slots) is part of the world that the collaborators share, see below.
\<close>

record session =
  RemoteSessionID :: sessionID
  LocalSessionID :: sessionID

record tunnel =
  ip :: string

record packet =
  opcode :: byte
  payload :: bytes

subsection \<open>What the multiplexer prints\<close>

datatype level = INFO | WARN | ERROR | STDOUT

datatype logarg = ArgErr error | ArgBytes bytes | ArgNat nat | ArgByte byte | ArgStr string

text \<open>
  One line of output: the level (\<open>STDOUT\<close> for \<^verbatim>\<open>fmt.Println\<close> and \<^verbatim>\<open>log.Println\<close>),
  the format string and its arguments.
\<close>

datatype logline = Log level string "logarg list"

subsection \<open>Calls to the handlers\<close>

text \<open>
  The model keeps a record of every call the multiplexer makes to a method of its
  control or data handler, to \<^verbatim>\<open>tls.Write\<close> and to \<^verbatim>\<open>addRemoteKey\<close>, in the order
  of the calls. The record is not state of the program: it is what the theorems about
  "what was sent, and when" are stated over. \<open>'h\<close> is the type of the opaque values
  (key sources, key slots, options, TLS objects) that the multiplexer only passes on.
\<close>

datatype 'h call =
    Call_SendHardReset
  | Call_ParseHardReset
  | Call_SendACK packetID
  | Call_PushRequest
  | Call_ReadPushResponse
  | Call_ControlMessage
  | Call_ReadControlMessage
  | Call_SetupKeys 'h
  | Call_WritePacket bytes
  | Call_ReadPacket packet
  | Call_tlsWrite bytes
  | Call_addRemoteKey 'h 'h

subsection \<open>Collaborators\<close>

text \<open>
  \<^verbatim>\<open>muxer.go\<close> calls its handlers through the interfaces \<^verbatim>\<open>controlHandler\<close> and
  \<^verbatim>\<open>dataHandler\<close>, whose implementations are not among the sources. They are parameters
  of the model: records of functions. A handler works on state behind pointers (the
  connection, the session's counters and keys, its own cipher state); all of that is
  the world \<open>'w\<close>, which an effectful method takes and returns. A Go result
  \<^verbatim>\<open>(value, error)\<close> whose value is only used when the error is nil is a sum; \<open>Inl\<close> is
  the error.
  \<^verbatim>\<open>
  type controlHandler interface {
      SendHardReset(net.Conn, *session)
      ParseHardReset([]byte) (sessionID, error)
      SendACK(net.Conn, *session, packetID) error
      PushRequest() []byte
      ReadPushResponse([]byte) string
      ControlMessage(*session, *Options) ([]byte, error)
      ReadControlMessage([]byte) (*keySource, string, error)
  }
  type dataHandler interface {
      SetupKeys(*dataChannelKey) error
      WritePacket(net.Conn, []byte) (int, error)
      ReadPacket(*packet) ([]byte, error)
      DecodeEncryptedPayload([]byte, *dataChannelState) (*encryptedData, error)
      EncryptAndEncodePayload([]byte, *dataChannelState) ([]byte, error)
  }
  \<close>
  The last two methods of \<^verbatim>\<open>dataHandler\<close> are never called in \<^verbatim>\<open>muxer.go\<close> and are
  left out.
\<close>

record ('w, 'h) controlHandler =
  SendHardReset :: "session \<Rightarrow> 'w \<Rightarrow> 'w"
  ParseHardReset :: "bytes \<Rightarrow> error + sessionID"
  SendACK :: "session \<Rightarrow> packetID \<Rightarrow> 'w \<Rightarrow> error option \<times> 'w"
  PushRequest :: "bytes"
  ReadPushResponse :: "bytes \<Rightarrow> string"
  ControlMessage :: "session \<Rightarrow> 'h \<Rightarrow> 'w \<Rightarrow> (error + bytes) \<times> 'w"
  ReadControlMessage :: "bytes \<Rightarrow> error + ('h \<times> string)"

record ('w, 'h) dataHandler =
  SetupKeys :: "'h \<Rightarrow> 'w \<Rightarrow> error option \<times> 'w"
  WritePacket :: "bytes \<Rightarrow> 'w \<Rightarrow> (int \<times> error option) \<times> 'w"
  ReadPacket :: "packet \<Rightarrow> 'w \<Rightarrow> (error + bytes) \<times> 'w"

text \<open>
  The functions, methods and constants of package \<^verbatim>\<open>vpn\<close> that \<^verbatim>\<open>muxer.go\<close> uses and
  that are declared in files outside the sources, again as parameters. \<open>readPacket\<close>
  reads the next packet from \<^verbatim>\<open>m.conn\<close>; \<open>tlsRead\<close> and \<open>tlsWrite\<close> are \<^verbatim>\<open>Read\<close> and
  \<^verbatim>\<open>Write\<close> of the TLS connection (\<open>tlsRead\<close> gives the bytes it stored in the buffer
  and its error); \<open>isACK\<close>, \<open>isControl\<close> and \<open>isData\<close> are the methods of \<^verbatim>\<open>packet\<close>;
  \<open>ActiveKey\<close> is the method of \<^verbatim>\<open>session\<close> and \<open>addRemoteKey\<close> the method of the key
  slot it returns.
\<close>

record ('w, 'h) pkg =
  readPacket :: "'w \<Rightarrow> (error + bytes) \<times> 'w"
  parsePacketFromBytes :: "bytes \<Rightarrow> error + packet"
  isACK :: "packet \<Rightarrow> bool"
  isControl :: "packet \<Rightarrow> bool"
  isData :: "packet \<Rightarrow> bool"
  isPing :: "bytes \<Rightarrow> bool"
  pingPayload :: "bytes"
  isControlMessage :: "bytes \<Rightarrow> bool"
  isBadAuthReply :: "bytes \<Rightarrow> bool"
  isPushReply :: "bytes \<Rightarrow> bool"
  parseRemoteOptions :: "tunnel \<Rightarrow> string \<Rightarrow> tunnel"
  initTLS :: "session \<Rightarrow> 'h \<Rightarrow> 'w \<Rightarrow> (error + 'h) \<times> 'w"
  NewTLSConn :: "session \<Rightarrow> 'w \<Rightarrow> (error + 'h) \<times> 'w"
  tlsHandshake :: "'h \<Rightarrow> 'h \<Rightarrow> 'w \<Rightarrow> (error + 'h) \<times> 'w"
  tlsRead :: "'h \<Rightarrow> 'w \<Rightarrow> (bytes \<times> error option) \<times> 'w"
  tlsWrite :: "'h \<Rightarrow> bytes \<Rightarrow> 'w \<Rightarrow> (int \<times> error option) \<times> 'w"
  ActiveKey :: "session \<Rightarrow> 'w \<Rightarrow> error + 'h"
  addRemoteKey :: "'h \<Rightarrow> 'h \<Rightarrow> 'w \<Rightarrow> 'w"

subsection \<open>The multiplexer's state\<close>

text \<open>
  \<^verbatim>\<open>
  type muxer struct {
      conn      net.Conn
      tls       net.Conn
      control   controlHandler
      data      dataHandler
      bufReader *bytes.Buffer
      session   *session
      tunnel    *tunnel
      options   *Options
  }
  \<close>
  The state of \<^verbatim>\<open>conn\<close> lives in \<open>world\<close>; \<open>tls\<close> is nil (\<open>None\<close>) until the TLS
  handshake is done; \<open>bufReader\<close> is the unread content of the buffer. \<open>calls\<close> and
  \<open>logs\<close> are the two records described above.
\<close>

record ('w, 'h) muxer =
  world :: 'w
  tls :: "'h option"
  control :: "('w, 'h) controlHandler"
  data :: "('w, 'h) dataHandler"
  bufReader :: bytes
  session :: session
  tunnel :: tunnel
  options :: 'h
  calls :: "'h call list"
  logs :: "logline list"

definition logger :: "level \<Rightarrow> string \<Rightarrow> logarg list \<Rightarrow> ('w, 'h) muxer \<Rightarrow> ('w, 'h) muxer" where
  "logger lv fmt args m = m\<lparr>logs := logs m @ [Log lv fmt args]\<rparr>"

definition called :: "'h call \<Rightarrow> ('w, 'h) muxer \<Rightarrow> ('w, 'h) muxer" where
  "called c m = m\<lparr>calls := calls m @ [c]\<rparr>"

section \<open>The multiplexer (vpn/muxer.go): operations\<close>

subsection \<open>Reading and handling packets\<close>

text \<open>
  \<^verbatim>\<open>
  func (m *muxer) handleDataPing() error {
      log.Println("openvpn-ping, sending reply")
      m.data.WritePacket(m.conn, pingPayload)
      return nil
  }
  \<close>
  The result of \<^verbatim>\<open>WritePacket\<close> is dropped.
\<close>

definition handleDataPing :: "('w, 'h) pkg \<Rightarrow> ('w, 'h) muxer \<Rightarrow> error option \<times> ('w, 'h) muxer" where
  "handleDataPing P m =
     (let m1 = logger STDOUT ''openvpn-ping, sending reply'' [] m;
          (r, w') = WritePacket (data m1) (pingPayload P) (world m1);
          m2 = called (Call_WritePacket (pingPayload P)) (m1\<lparr>world := w'\<rparr>)
      in (None, m2))"

text \<open>
  \<^verbatim>\<open>
  func (m *muxer) handleIncomingPacket() bool {
      data, err := readPacket(m.conn)
      if err != nil { logger.Error(err.Error()); return false }
      p, err := parsePacketFromBytes(data)
      if err != nil { logger.Error(err.Error()); return false }
      if p.isACK() { logger.Warn("muxer: got ACK (ignored)"); return false }
      if p.isControl() {
          logger.Infof("Got control packet: %d", len(data))
          fmt.Println(hex.Dump(p.payload))
          return false
      }
      if !p.isData() {
          logger.Warnf("unhandled data. (op: %d)", p.opcode)
          fmt.Println(hex.Dump(data))
          return false
      }
      if isPing(data) { m.handleDataPing(); return false }
      plaintext, err := m.data.ReadPacket(p)
      if err != nil { logger.Errorf("bad decryption: %s", err.Error()); return false }
      m.bufReader.Write(plaintext)
      return true
  }
  \<close>
\<close>

definition handleIncomingPacket :: "('w, 'h) pkg \<Rightarrow> ('w, 'h) muxer \<Rightarrow> bool \<times> ('w, 'h) muxer" where
  "handleIncomingPacket P m =
     (let (r, w1) = readPacket P (world m);
          m1 = m\<lparr>world := w1\<rparr>
      in case r of
           Inl err \<Rightarrow> (False, logger ERROR ''%s'' [ArgErr err] m1)
         | Inr dat \<Rightarrow>
             (case parsePacketFromBytes P dat of
                Inl err \<Rightarrow> (False, logger ERROR ''%s'' [ArgErr err] m1)
              | Inr p \<Rightarrow>
                  if isACK P p then (False, logger WARN ''muxer: got ACK (ignored)'' [] m1)
                  else if isControl P p then
                    (False, logger STDOUT ''hex.Dump'' [ArgBytes (payload p)]
                              (logger INFO ''Got control packet: %d'' [ArgNat (length dat)] m1))
                  else if \<not> isData P p then
                    (False, logger STDOUT ''hex.Dump'' [ArgBytes dat]
                              (logger WARN ''unhandled data. (op: %d)'' [ArgByte (opcode p)] m1))
                  else if isPing P dat then (False, snd (handleDataPing P m1))
                  else
                    (let (r2, w2) = ReadPacket (data m1) p (world m1);
                         m2 = called (Call_ReadPacket p) (m1\<lparr>world := w2\<rparr>)
                     in case r2 of
                          Inl err \<Rightarrow> (False, logger ERROR ''bad decryption: %s'' [ArgErr err] m2)
                        | Inr plaintext \<Rightarrow> (True, m2\<lparr>bufReader := bufReader m2 @ plaintext\<rparr>))))"

text \<open>
  \<^verbatim>\<open>(*bytes.Buffer).Read(p)\<close> of the Go library, for a destination of \<open>n\<close> bytes: on an
  empty buffer it returns \<^verbatim>\<open>0, nil\<close> when \<open>n = 0\<close> and \<^verbatim>\<open>0, io.EOF\<close> otherwise; on a
  buffer with content it copies and consumes the first \<open>n\<close> bytes. The result is the
  bytes copied, the error, and what is left in the buffer.
\<close>

definition Buffer_Read :: "bytes \<Rightarrow> nat \<Rightarrow> bytes \<times> error option \<times> bytes" where
  "Buffer_Read buf n =
     (if buf = [] then (if n = 0 then ([], None, []) else ([], Some EOF, []))
      else (take n buf, None, drop n buf))"

text \<open>
  \<^verbatim>\<open>
  func (m *muxer) Read(b []byte) (int, error) {
      for !m.handleIncomingPacket() {
      }
      return m.bufReader.Read(b)
  }
  \<close>
  The loop has no bound: \<open>Read_loop\<close> is \<open>None\<close> when it never ends. \<open>Read\<close> takes the
  length of \<^verbatim>\<open>b\<close> and gives the bytes stored in \<^verbatim>\<open>b\<close> (their number is the \<^verbatim>\<open>int\<close> the
  Go function returns) and the error.
\<close>

partial_function (option) Read_loop :: "('w, 'h) pkg \<Rightarrow> ('w, 'h) muxer \<Rightarrow> ('w, 'h) muxer option" where
  "Read_loop P m =
     (case handleIncomingPacket P m of (ok, m') \<Rightarrow> if ok then Some m' else Read_loop P m')"

definition Read :: "('w, 'h) pkg \<Rightarrow> ('w, 'h) muxer \<Rightarrow> nat \<Rightarrow> ((bytes \<times> error option) \<times> ('w, 'h) muxer) option" where
  "Read P m n =
     (case Read_loop P m of
        None \<Rightarrow> None
      | Some m' \<Rightarrow>
          (let (out, err, rest) = Buffer_Read (bufReader m') n
           in Some ((out, err), m'\<lparr>bufReader := rest\<rparr>)))"

text \<open>
  \<^verbatim>\<open>
  func (m *muxer) Write(b []byte) (int, error) {
      return m.data.WritePacket(m.conn, b)
  }
  \<close>
\<close>

definition Write :: "('w, 'h) pkg \<Rightarrow> ('w, 'h) muxer \<Rightarrow> bytes \<Rightarrow> (int \<times> error option) \<times> ('w, 'h) muxer" where
  "Write P m b =
     (let (r, w') = WritePacket (data m) b (world m)
      in (r, called (Call_WritePacket b) (m\<lparr>world := w'\<rparr>)))"

subsection \<open>The handshake\<close>

text \<open>
  \<^verbatim>\<open>
  func (m *muxer) Reset() error {
      m.control.SendHardReset(m.conn, m.session)
      resp, err := readPacket(m.conn)
      if err != nil { return err }
      remoteSessionID, err := m.control.ParseHardReset(resp)
      if err != nil { return fmt.Errorf("%s: %w", ErrBadHandshake, err) }
      m.session.RemoteSessionID = remoteSessionID
      logger.Infof("Remote session ID: %x", m.session.RemoteSessionID)
      logger.Infof("Local session ID:  %x", m.session.LocalSessionID)
      m.control.SendACK(m.conn, m.session, packetID(0))
      return nil
  }
  \<close>
  The error that \<^verbatim>\<open>SendACK\<close> returns is dropped.
\<close>

definition Reset :: "('w, 'h) pkg \<Rightarrow> ('w, 'h) muxer \<Rightarrow> error option \<times> ('w, 'h) muxer" where
  "Reset P m =
     (let m1 = called Call_SendHardReset (m\<lparr>world := SendHardReset (control m) (session m) (world m)\<rparr>);
          (r, w2) = readPacket P (world m1);
          m2 = m1\<lparr>world := w2\<rparr>
      in case r of
           Inl err \<Rightarrow> (Some err, m2)
         | Inr resp \<Rightarrow>
             (let m3 = called Call_ParseHardReset m2
              in case ParseHardReset (control m3) resp of
                   Inl err \<Rightarrow> (Some (Errorf_s_w ErrBadHandshake err), m3)
                 | Inr remoteSessionID \<Rightarrow>
                     (let m4 = m3\<lparr>session := (session m3)\<lparr>RemoteSessionID := remoteSessionID\<rparr>\<rparr>;
                          m5 = logger INFO ''Remote session ID: %x'' [ArgBytes (RemoteSessionID (session m4))] m4;
                          m6 = logger INFO ''Local session ID:  %x'' [ArgBytes (LocalSessionID (session m5))] m5;
                          (ackerr, w3) = SendACK (control m6) (session m6) 0 (world m6);
                          m7 = called (Call_SendACK 0) (m6\<lparr>world := w3\<rparr>)
                      in (None, m7))))"

text \<open>
  \<^verbatim>\<open>
  func (m *muxer) readTLSPacket() ([]byte, error) {
      data := make([]byte, 4096)
      _, err := m.tls.Read(data)
      return data, err
  }
  \<close>
  The buffer that comes back is always 4096 bytes long: what \<^verbatim>\<open>Read\<close> stored, then
  zeros.
\<close>

definition readTLSPacket :: "('w, 'h) pkg \<Rightarrow> ('w, 'h) muxer \<Rightarrow> (bytes \<times> error option) \<times> ('w, 'h) muxer" where
  "readTLSPacket P m =
     (case tls m of
        None \<Rightarrow> (([], Some NilTLS), m)
      | Some t \<Rightarrow>
          (let ((chunk, err), w') = tlsRead P t (world m)
           in ((take 4096 chunk @ replicate (4096 - length chunk) 0, err), m\<lparr>world := w'\<rparr>)))"

text \<open>
  \<^verbatim>\<open>
  func (m *muxer) readAndLoadRemoteKey() error {
      data, err := m.readTLSPacket()
      if err != nil { return err }
      if !isControlMessage(data) {
          return fmt.Errorf("%w:%s", errBadControlMessage, "expected null header")
      }
      remoteKey, opts, err := m.control.ReadControlMessage(data)
      if err != nil {
          logger.Errorf("cannot parse control message")
          return fmt.Errorf("%w:%s", ErrBadHandshake, err)
      }
      key, err := m.session.ActiveKey()
      if err != nil {
          logger.Errorf("cannot get active key")
          return fmt.Errorf("%w:%s", ErrBadHandshake, err)
      }
      key.addRemoteKey(remoteKey)
      m.tunnel = parseRemoteOptions(m.tunnel, opts)
      return nil
  }
  \<close>
\<close>

definition readAndLoadRemoteKey :: "('w, 'h) pkg \<Rightarrow> ('w, 'h) muxer \<Rightarrow> error option \<times> ('w, 'h) muxer" where
  "readAndLoadRemoteKey P m =
     (let ((dat, err), m1) = readTLSPacket P m
      in case err of
           Some e \<Rightarrow> (Some e, m1)
         | None \<Rightarrow>
             if \<not> isControlMessage P dat
             then (Some (Errorf_w_text errBadControlMessage ''expected null header''), m1)
             else
               (let m2 = called Call_ReadControlMessage m1
                in case ReadControlMessage (control m2) dat of
                     Inl e \<Rightarrow>
                       (Some (Errorf_w_s ErrBadHandshake e),
                        logger ERROR ''cannot parse control message'' [] m2)
                   | Inr (remoteKey, opts) \<Rightarrow>
                       (case ActiveKey P (session m2) (world m2) of
                          Inl e \<Rightarrow>
                            (Some (Errorf_w_s ErrBadHandshake e),
                             logger ERROR ''cannot get active key'' [] m2)
                        | Inr key \<Rightarrow>
                            (let m3 = called (Call_addRemoteKey key remoteKey)
                                        (m2\<lparr>world := addRemoteKey P key remoteKey (world m2)\<rparr>);
                                 m4 = m3\<lparr>tunnel := parseRemoteOptions P (tunnel m3) opts\<rparr>
                             in (None, m4)))))"

text \<open>
  \<^verbatim>\<open>
  func (m *muxer) sendPushRequest() (int, error) {
      return m.tls.Write(m.control.PushRequest())
  }
  \<close>
\<close>

definition sendPushRequest :: "('w, 'h) pkg \<Rightarrow> ('w, 'h) muxer \<Rightarrow> (int \<times> error option) \<times> ('w, 'h) muxer" where
  "sendPushRequest P m =
     (let m1 = called Call_PushRequest m;
          req = PushRequest (control m1)
      in case tls m1 of
           None \<Rightarrow> ((0, Some NilTLS), m1)
         | Some t \<Rightarrow>
             (let (r, w') = tlsWrite P t req (world m1)
              in (r, called (Call_tlsWrite req) (m1\<lparr>world := w'\<rparr>))))"

text \<open>
  \<^verbatim>\<open>
  func (m *muxer) readPushReply() error {
      resp, err := m.readTLSPacket()
      if err != nil { return err }
      logger.Info("Server pushed options")
      if isBadAuthReply(resp) { return errBadAuth }
      if !isPushReply(resp) {
          return fmt.Errorf("%w:%s", errBadServerReply, "expected push reply")
      }
      ip := m.control.ReadPushResponse(resp)
      m.tunnel.ip = ip
      logger.Infof("Tunnel IP: %s", ip)
      return nil
  }
  \<close>
\<close>

definition readPushReply :: "('w, 'h) pkg \<Rightarrow> ('w, 'h) muxer \<Rightarrow> error option \<times> ('w, 'h) muxer" where
  "readPushReply P m =
     (let ((resp, err), m1) = readTLSPacket P m
      in case err of
           Some e \<Rightarrow> (Some e, m1)
         | None \<Rightarrow>
             (let m2 = logger INFO ''Server pushed options'' [] m1
              in if isBadAuthReply P resp then (Some errBadAuth, m2)
                 else if \<not> isPushReply P resp
                 then (Some (Errorf_w_text errBadServerReply ''expected push reply''), m2)
                 else
                   (let m3 = called Call_ReadPushResponse m2;
                        ip' = ReadPushResponse (control m3) resp;
                        m4 = m3\<lparr>tunnel := (tunnel m3)\<lparr>ip := ip'\<rparr>\<rparr>
                    in (None, logger INFO ''Tunnel IP: %s'' [ArgStr ip'] m4))))"

text \<open>
  \<^verbatim>\<open>
  func (m *muxer) sendControlMessage() error {
      cm, err := m.control.ControlMessage(m.session, m.options)
      if err != nil { return err }
      if _, err := m.tls.Write(cm); err != nil { return err }
      return nil
  }
  \<close>
\<close>

definition sendControlMessage :: "('w, 'h) pkg \<Rightarrow> ('w, 'h) muxer \<Rightarrow> error option \<times> ('w, 'h) muxer" where
  "sendControlMessage P m =
     (let (r, w1) = ControlMessage (control m) (session m) (options m) (world m);
          m1 = called Call_ControlMessage (m\<lparr>world := w1\<rparr>)
      in case r of
           Inl e \<Rightarrow> (Some e, m1)
         | Inr cm \<Rightarrow>
             (case tls m1 of
                None \<Rightarrow> (Some NilTLS, m1)
              | Some t \<Rightarrow>
                  (let ((n, err), w2) = tlsWrite P t cm (world m1);
                       m2 = called (Call_tlsWrite cm) (m1\<lparr>world := w2\<rparr>)
                   in case err of Some e \<Rightarrow> (Some e, m2) | None \<Rightarrow> (None, m2))))"

text \<open>
  \<^verbatim>\<open>
  func (m *muxer) InitDataWithRemoteKey() error {
      if err := m.sendControlMessage(); err != nil { return err }
      if err := m.readAndLoadRemoteKey(); err != nil { return err }
      key0, err := m.session.ActiveKey()
      if err != nil { return err }
      err = m.data.SetupKeys(key0)
      if err != nil { return err }
      if _, err := m.sendPushRequest(); err != nil { return err }
      if err := m.readPushReply(); err != nil { return err }
      return nil
  }
  \<close>
\<close>

definition InitDataWithRemoteKey :: "('w, 'h) pkg \<Rightarrow> ('w, 'h) muxer \<Rightarrow> error option \<times> ('w, 'h) muxer" where
  "InitDataWithRemoteKey P m =
     (case sendControlMessage P m of
        (Some e, m1) \<Rightarrow> (Some e, m1)
      | (None, m1) \<Rightarrow>
          (case readAndLoadRemoteKey P m1 of
             (Some e, m2) \<Rightarrow> (Some e, m2)
           | (None, m2) \<Rightarrow>
               (case ActiveKey P (session m2) (world m2) of
                  Inl e \<Rightarrow> (Some e, m2)
                | Inr key0 \<Rightarrow>
                    (let (err, w3) = SetupKeys (data m2) key0 (world m2);
                         m3 = called (Call_SetupKeys key0) (m2\<lparr>world := w3\<rparr>)
                     in case err of
                          Some e \<Rightarrow> (Some e, m3)
                        | None \<Rightarrow>
                            (case sendPushRequest P m3 of
                               ((n, Some e), m4) \<Rightarrow> (Some e, m4)
                             | ((n, None), m4) \<Rightarrow> readPushReply P m4)))))"

text \<open>
  \<^verbatim>\<open>
  func (m *muxer) Handshake() error {
      if err := m.Reset(); err != nil { return err }
      tlsConf, err := initTLS(m.session, m.options)
      if err != nil { return err }
      tlsConn, err := NewTLSConn(m.conn, m.session)
      if err != nil { return fmt.Errorf("%w: %s", ErrBadTLSHandshake, err) }
      tls, err := tlsHandshake(tlsConn, tlsConf)
      if err != nil { return err }
      m.tls = tls
      logger.Info("TLS handshake done")
      if err := m.InitDataWithRemoteKey(); err != nil { return err }
      logger.Info("VPN handshake done")
      return nil
  }
  \<close>
\<close>

definition Handshake :: "('w, 'h) pkg \<Rightarrow> ('w, 'h) muxer \<Rightarrow> error option \<times> ('w, 'h) muxer" where
  "Handshake P m =
     (case Reset P m of
        (Some e, m1) \<Rightarrow> (Some e, m1)
      | (None, m1) \<Rightarrow>
          (let (r2, w2) = initTLS P (session m1) (options m1) (world m1);
               m2 = m1\<lparr>world := w2\<rparr>
           in case r2 of
                Inl e \<Rightarrow> (Some e, m2)
              | Inr tlsConf \<Rightarrow>
                  (let (r3, w3) = NewTLSConn P (session m2) (world m2);
                       m3 = m2\<lparr>world := w3\<rparr>
                   in case r3 of
                        Inl e \<Rightarrow> (Some (Errorf_w_s ErrBadTLSHandshake e), m3)
                      | Inr tlsConn \<Rightarrow>
                          (let (r4, w4) = tlsHandshake P tlsConn tlsConf (world m3);
                               m4 = m3\<lparr>world := w4\<rparr>
                           in case r4 of
                                Inl e \<Rightarrow> (Some e, m4)
                              | Inr t \<Rightarrow>
                                  (let m5 = logger INFO ''TLS handshake done'' [] (m4\<lparr>tls := Some t\<rparr>)
                                   in case InitDataWithRemoteKey P m5 of
                                        (Some e, m6) \<Rightarrow> (Some e, m6)
                                      | (None, m6) \<Rightarrow>
                                          (None, logger INFO ''VPN handshake done'' [] m6))))))"

section \<open>A loopback instance of the collaborators\<close>

text \<open>
  The theorems about the multiplexer's own code hold for every choice of the
  collaborators. To run the multiplexer on concrete traffic, and to state what the
  data channel as a whole does, this section fixes one choice: a scripted peer in place
  of the network, and handlers that do what the specification says of them.
\<close>

text \<open>
  Modelled from the spec: the packet codec, the control and data handlers, the session's
  key slots, the transport and the TLS connection are not among the source files.
  \<^item> Codec (section 4.2): a packet starts with one byte holding the 5-bit opcode and the
    3-bit key id, with \<^verbatim>\<open>CONTROL_V1 = 4\<close>, \<^verbatim>\<open>ACK_V1 = 5\<close>, \<^verbatim>\<open>DATA_V1 = 6\<close>,
    \<^verbatim>\<open>CONTROL_HARD_RESET_CLIENT_V2 = 7\<close> and \<^verbatim>\<open>CONTROL_HARD_RESET_SERVER_V2 = 8\<close> as
    in OpenVPN; any other opcode is a malformed header.
  \<^item> Control messages (section 4.5): a control message starts with the four zero bytes of
    its magic, a push reply with \<^verbatim>\<open>PUSH_REPLY\<close>, a refusal with \<^verbatim>\<open>AUTH_FAILED\<close>.
  \<^item> Key slots (section 3 and 4.7): the active slot is made at session start with the
    local KeySource in it; the remote KeySource is added once the server's control
    message is read; the key schedule runs on a slot that holds both and produces the
    two directional states (\<open>keys_ready\<close>).
  \<^item> Data handler, outbound (invariant I4 and section 4.8): payload is transmitted only
    once the directional states exist; each packet takes the next data packet-id.
  \<^item> Data handler, inbound (section 4.8, invariant I5, section 7): a packet is
    authenticated and its packet-id must be above the highest accepted one; a packet
    that fails either test is dropped and counted, and its error (\<open>BadAuthentication\<close>,
    \<open>Replay\<close>) goes back to the caller, who drops it. A plaintext equal to the 16-byte
    OpenVPN ping magic is answered with a packet carrying the same magic and yields no
    bytes.
  The cipher itself is not reproduced: in place of the MAC a data packet carries one
  byte, 1 when it is authentic, and the packet-id is one byte, in the clear.
\<close>

record world0 =
  net_in :: "(error + bytes) list"
  net_out :: "bytes list"
  tls_in :: "bytes list"
  tls_out :: "bytes list"
  active_slot :: nat
  local_in :: "nat list"
  remote_in :: "nat list"
  keys_ready :: bool
  tx_next :: nat
  rx_high :: nat
  dropped :: nat

text \<open>
  \<open>net_in\<close> is what the peer will send and \<open>net_out\<close> what was put on the wire, in
  order; \<open>tls_in\<close> and \<open>tls_out\<close> are the same for the TLS channel. \<open>local_in\<close> and
  \<open>remote_in\<close> list the key slots that hold a local and a remote KeySource, \<open>tx_next\<close> is the next outbound data
  packet-id, \<open>rx_high\<close> the highest inbound one accepted, \<open>dropped\<close> the count of
  rejected data packets. The opaque values of this instance are numbers (a key slot is
  its index).

  The transport hands out the scripted results in order; once the script is used up the
  connection is closed and every read fails.
\<close>

definition lb_readPacket :: "world0 \<Rightarrow> (error + bytes) \<times> world0" where
  "lb_readPacket w =
     (case net_in w of
        [] \<Rightarrow> (Inl (Foreign ''use of closed network connection''), w)
      | r # rs \<Rightarrow> (r, w\<lparr>net_in := rs\<rparr>))"

definition lb_parsePacketFromBytes :: "bytes \<Rightarrow> error + packet" where
  "lb_parsePacketFromBytes dat =
     (case dat of
        [] \<Rightarrow> Inl (Foreign ''malformed header'')
      | b # rest \<Rightarrow>
          (let op = drop_bit 3 b
           in if op = 4 \<or> op = 5 \<or> op = 6 \<or> op = 7 \<or> op = 8
              then Inr \<lparr>opcode = op, payload = rest\<rparr>
              else Inl (Foreign ''malformed header'')))"

definition lb_isACK :: "packet \<Rightarrow> bool" where
  "lb_isACK p = (opcode p = 5)"

definition lb_isControl :: "packet \<Rightarrow> bool" where
  "lb_isControl p = (opcode p = 4 \<or> opcode p = 7 \<or> opcode p = 8)"

definition lb_isData :: "packet \<Rightarrow> bool" where
  "lb_isData p = (opcode p = 6)"

definition lb_pingPayload :: bytes where
  "lb_pingPayload =
     [0x2A, 0x18, 0x7B, 0xF3, 0x64, 0x1E, 0xB4, 0xCB, 0x07, 0xED, 0x2D, 0x0A, 0x98, 0x1F, 0xC7, 0x48]"

definition lb_isPing :: "bytes \<Rightarrow> bool" where
  "lb_isPing b = (b = lb_pingPayload)"

definition lb_isControlMessage :: "bytes \<Rightarrow> bool" where
  "lb_isControlMessage b = (take 4 b = [0, 0, 0, 0])"

text \<open>The bytes of \<^verbatim>\<open>AUTH_FAILED\<close>, \<^verbatim>\<open>PUSH_REPLY\<close> and \<^verbatim>\<open>PUSH_REQUEST\<close> with its final zero.\<close>

definition AUTH_FAILED :: bytes where
  "AUTH_FAILED = [65, 85, 84, 72, 95, 70, 65, 73, 76, 69, 68]"

definition PUSH_REPLY :: bytes where
  "PUSH_REPLY = [80, 85, 83, 72, 95, 82, 69, 80, 76, 89]"

definition PUSH_REQUEST :: bytes where
  "PUSH_REQUEST = [80, 85, 83, 72, 95, 82, 69, 81, 85, 69, 83, 84, 0]"

definition lb_isBadAuthReply :: "bytes \<Rightarrow> bool" where
  "lb_isBadAuthReply b = (take 11 b = AUTH_FAILED)"

definition lb_isPushReply :: "bytes \<Rightarrow> bool" where
  "lb_isPushReply b = (take 10 b = PUSH_REPLY)"

definition lb_tlsRead :: "nat \<Rightarrow> world0 \<Rightarrow> (bytes \<times> error option) \<times> world0" where
  "lb_tlsRead t w =
     (case tls_in w of
        [] \<Rightarrow> (([], Some EOF), w)
      | c # cs \<Rightarrow> ((c, None), w\<lparr>tls_in := cs\<rparr>))"

definition lb_tlsWrite :: "nat \<Rightarrow> bytes \<Rightarrow> world0 \<Rightarrow> (int \<times> error option) \<times> world0" where
  "lb_tlsWrite t b w = ((int (length b), None), w\<lparr>tls_out := tls_out w @ [b]\<rparr>)"

definition loopback :: "(world0, nat) pkg" where
  "loopback =
     \<lparr>readPacket = lb_readPacket,
      parsePacketFromBytes = lb_parsePacketFromBytes,
      isACK = lb_isACK,
      isControl = lb_isControl,
      isData = lb_isData,
      isPing = lb_isPing,
      pingPayload = lb_pingPayload,
      isControlMessage = lb_isControlMessage,
      isBadAuthReply = lb_isBadAuthReply,
      isPushReply = lb_isPushReply,
      parseRemoteOptions = (\<lambda>t opts. t),
      initTLS = (\<lambda>s opt w. (Inr 0, w)),
      NewTLSConn = (\<lambda>s w. (Inr 0, w)),
      tlsHandshake = (\<lambda>tlsConn tlsConf w. (Inr 0, w)),
      tlsRead = lb_tlsRead,
      tlsWrite = lb_tlsWrite,
      ActiveKey = (\<lambda>s w. Inr (active_slot w)),
      addRemoteKey = (\<lambda>key k w. w\<lparr>remote_in := key # remote_in w\<rparr>)\<rparr>"

definition lb_control :: "(world0, nat) controlHandler" where
  "lb_control =
     \<lparr>SendHardReset = (\<lambda>s w. w\<lparr>net_out := net_out w @ [0x38 # LocalSessionID s]\<rparr>),
      ParseHardReset = (\<lambda>resp.
         case resp of
           [] \<Rightarrow> Inl (Foreign ''malformed header'')
         | b # rest \<Rightarrow>
             if drop_bit 3 b = 8 \<and> 8 \<le> length rest then Inr (take 8 rest)
             else Inl (Foreign ''not a hard reset from the server'')),
      SendACK = (\<lambda>s pid w. (None, w\<lparr>net_out := net_out w @ [0x28 # LocalSessionID s @ [1, ucast pid]]\<rparr>)),
      PushRequest = PUSH_REQUEST,
      ReadPushResponse = (\<lambda>resp. ''10.8.0.6''),
      ControlMessage = (\<lambda>s opt w. (Inr [0, 0, 0, 0, 2], w)),
      ReadControlMessage = (\<lambda>dat. Inr (1, ''V4,dev-type tun''))\<rparr>"

text \<open>
  A control handler on a connection whose write side has failed by the time the ACK is
  due: \<^verbatim>\<open>SendACK\<close> returns the transport's error and nothing goes out.
\<close>

definition lb_control_ack_fails :: "(world0, nat) controlHandler" where
  "lb_control_ack_fails =
     lb_control\<lparr>SendACK := (\<lambda>s pid w. (Some (Foreign ''write: broken pipe''), w))\<rparr>"

text \<open>
  Modelled from the spec: the data channel's stand-in for the cipher (section 4.8 and
  invariant I5), with the one-byte MAC and packet-id. \<open>lb_seal i b\<close> is the data packet with
  packet-id \<open>i\<close> and plaintext \<open>b\<close>. \<open>lb_open w p\<close> is what the inbound side makes of a
  packet in world \<open>w\<close>: its packet-id and plaintext, or the reason it is rejected.
\<close>

definition lb_seal :: "nat \<Rightarrow> bytes \<Rightarrow> bytes" where
  "lb_seal i b = [0x30, 1, of_nat i] @ b"

definition lb_open :: "world0 \<Rightarrow> packet \<Rightarrow> error + (nat \<times> bytes)" where
  "lb_open w p =
     (if \<not> keys_ready w then Inl (Foreign ''BadAuthentication'')
      else case payload p of
             mac # pid # body \<Rightarrow>
               if mac \<noteq> 1 then Inl (Foreign ''BadAuthentication'')
               else if unat pid \<le> rx_high w then Inl (Foreign ''Replay'')
               else Inr (unat pid, body)
           | _ \<Rightarrow> Inl (Foreign ''BadAuthentication''))"

definition is_data_packet :: "bytes \<Rightarrow> bool" where
  "is_data_packet pkt = (case pkt of [] \<Rightarrow> False | b # rest \<Rightarrow> drop_bit 3 b = 6)"

text \<open>
  Modelled from the spec: the data handler. \<^verbatim>\<open>SetupKeys\<close> runs the key schedule on a
  slot that holds both KeySources (section 4.7) and fails with \<open>NoActiveKey\<close> on any
  other. \<^verbatim>\<open>WritePacket\<close> transmits only once the directional states exist (invariant
  I4). \<^verbatim>\<open>ReadPacket\<close> drops and counts a packet that \<open>lb_open\<close> rejects (section 7),
  answers a ping and yields no bytes for it (section 4.8), and returns any other
  plaintext.

  \<^verbatim>\<open>ReadPacket\<close> has one way to give its caller no bytes, and it must give none for a
  ping: the multiplexer hands every plaintext that comes without an error to the user
  and ends the pending read. So the ping, once answered, is reported through the
  error result, like a rejected packet, but it is not counted as one.
\<close>

definition lb_data :: "(world0, nat) dataHandler" where
  "lb_data =
     \<lparr>SetupKeys = (\<lambda>key w.
         if key \<in> set (local_in w) \<and> key \<in> set (remote_in w)
         then (None, w\<lparr>keys_ready := True\<rparr>)
         else (Some (Foreign ''NoActiveKey''), w)),
      WritePacket = (\<lambda>b w.
         if keys_ready w
         then ((int (length b), None),
               w\<lparr>net_out := net_out w @ [lb_seal (tx_next w) b], tx_next := Suc (tx_next w)\<rparr>)
         else ((0, Some (Foreign ''data channel not ready'')), w)),
      ReadPacket = (\<lambda>p w.
         case lb_open w p of
           Inl e \<Rightarrow> (Inl e, w\<lparr>dropped := Suc (dropped w)\<rparr>)
         | Inr (pid, body) \<Rightarrow>
             if body = lb_pingPayload
             then (Inl (Foreign ''ping answered''),
                   w\<lparr>rx_high := pid,
                     net_out := net_out w @ [lb_seal (tx_next w) lb_pingPayload],
                     tx_next := Suc (tx_next w)\<rparr>)
             else (Inr body, w\<lparr>rx_high := pid\<rparr>))\<rparr>"

text \<open>
  The multiplexer as \<^verbatim>\<open>newMuxerFromOptions\<close> builds it (no TLS connection yet, an empty
  read buffer), over a peer that will send \<open>packets\<close> on the transport and \<open>records\<close>
  over TLS. \<open>established packets\<close> is the multiplexer after its handshake with a peer
  that answers the hard reset, the control message and the push request, and then
  sends \<open>packets\<close>.
\<close>

definition peer :: "(error + bytes) list \<Rightarrow> bytes list \<Rightarrow> world0" where
  "peer packets records =
     \<lparr>net_in = packets, net_out = [], tls_in = records, tls_out = [],
      active_slot = 0, local_in = [0], remote_in = [], keys_ready = False,
      tx_next = 1, rx_high = 0, dropped = 0\<rparr>"

definition newMuxer :: "world0 \<Rightarrow> (world0, nat) muxer" where
  "newMuxer w =
     \<lparr>world = w, tls = None, control = lb_control, data = lb_data, bufReader = [],
      session = \<lparr>RemoteSessionID = [], LocalSessionID = [1, 2, 3, 4, 5, 6, 7, 8]\<rparr>,
      tunnel = \<lparr>ip = []\<rparr>, options = 0, calls = [], logs = []\<rparr>"

definition established :: "(error + bytes) list \<Rightarrow> (world0, nat) muxer" where
  "established packets =
     snd (Handshake loopback
            (newMuxer (peer (Inr [0x40, 9, 9, 9, 9, 9, 9, 9, 9] # packets)
                            [[0, 0, 0, 0, 2], PUSH_REPLY])))"

text \<open>
  The states the multiplexer over the loopback instance can be in: what
  \<^verbatim>\<open>newMuxerFromOptions\<close> builds, and what the methods of \<^verbatim>\<open>vpnMuxer\<close> make of a state
  that can be reached. A \<^verbatim>\<open>Read\<close> that has not returned yet has made some number of
  calls of \<^verbatim>\<open>handleIncomingPacket\<close>; the state after each of them counts as well.
\<close>

inductive reachable :: "(world0, nat) muxer \<Rightarrow> bool" where
  by_start: "reachable (newMuxer (peer packets records))"
| by_handshake: "reachable m \<Longrightarrow> reachable (snd (Handshake loopback m))"
| by_reset: "reachable m \<Longrightarrow> reachable (snd (Reset loopback m))"
| by_init_data: "reachable m \<Longrightarrow> reachable (snd (InitDataWithRemoteKey loopback m))"
| by_write: "reachable m \<Longrightarrow> reachable (snd (Write loopback m b))"
| by_pull: "reachable m \<Longrightarrow> reachable (snd (handleIncomingPacket loopback m))"
| by_read: "reachable m \<Longrightarrow> Read loopback m n = Some (r, m') \<Longrightarrow> reachable m'"

text \<open>
  The invariant of the states the multiplexer can reach over the loopback instance: its
  handlers are the ones it was built with; the directional states exist only if the
  active key slot holds both KeySources; and a data packet is on the wire only if the
  directional states exist.
\<close>

definition lb_inv :: "(world0, nat) muxer \<Rightarrow> bool" where
  "lb_inv m =
     (data m = lb_data \<and> control m = lb_control \<and>
      (keys_ready (world m) \<longrightarrow>
         active_slot (world m) \<in> set (local_in (world m)) \<and>
         active_slot (world m) \<in> set (remote_in (world m))) \<and>
      ((\<exists>pkt \<in> set (net_out (world m)). is_data_packet pkt) \<longrightarrow> keys_ready (world m)))"

section \<open>Runs of the read loop\<close>

text \<open>
  Three notions the theorems about \<^verbatim>\<open>Read\<close> are stated with. \<open>pulls P k m\<close> is the
  multiplexer after \<open>k\<close> calls of \<^verbatim>\<open>handleIncomingPacket\<close>, one after the other.
  \<open>drain P k w\<close> is the world after \<open>k\<close> calls of \<^verbatim>\<open>readPacket\<close>. A transport is down
  when every read from now on fails, as the reads of a closed connection do.
\<close>

fun pulls :: "('w, 'h) pkg \<Rightarrow> nat \<Rightarrow> ('w, 'h) muxer \<Rightarrow> ('w, 'h) muxer" where
  "pulls P 0 m = m"
| "pulls P (Suc k) m = pulls P k (snd (handleIncomingPacket P m))"

fun drain :: "('w, 'h) pkg \<Rightarrow> nat \<Rightarrow> 'w \<Rightarrow> 'w" where
  "drain P 0 w = w"
| "drain P (Suc k) w = drain P k (snd (readPacket P w))"

definition transport_down :: "('w, 'h) pkg \<Rightarrow> 'w \<Rightarrow> bool" where
  "transport_down P w = (\<forall>k. isl (fst (readPacket P (drain P k w))))"

section \<open>Properties of the wire framer\<close>

lemma Uint16_PutUint16: "Uint16 (ucast (drop_bit 8 v)) (ucast v) = v"
  by (rule bit_word_eqI) (auto simp: Uint16_def bit_simps)

lemma high_byte_of_nat:
  "(ucast (drop_bit 8 (of_nat n :: 16 word)) :: byte) = of_nat ((n mod 65536) div 256)"
proof -
  have "(n mod 65536) div 256 = drop_bit 8 (take_bit 16 n)"
    by (simp add: drop_bit_eq_div take_bit_eq_mod)
  then show ?thesis
    by (simp only:) (rule bit_word_eqI, auto simp: bit_simps)
qed

lemma low_byte_of_nat: "(ucast (of_nat n :: 16 word) :: byte) = of_nat (n mod 256)"
proof -
  have "n mod 256 = take_bit 8 n"
    by (simp add: take_bit_eq_mod)
  then show ?thesis
    by (simp only:) (rule bit_word_eqI, auto simp: bit_simps)
qed

lemma toSizeFrame_bytes: "toSizeFrame b = be16 (length b mod 65536) @ b"
proof -
  have "length b mod 65536 mod 256 = length b mod 256"
    by (simp add: mod_mod_cancel)
  then show ?thesis
    by (simp add: toSizeFrame_def PutUint16_def be16_def high_byte_of_nat low_byte_of_nat)
qed

lemma toSizeFrame_prefix_value:
  "unat (Uint16 (toSizeFrame b ! 0) (toSizeFrame b ! 1)) = length b mod 65536"
  by (simp add: toSizeFrame_def PutUint16_def Uint16_PutUint16 unat_of_nat take_bit_eq_mod)

lemma unframe_toSizeFrame: "unframe (toSizeFrame b) = Some (take (length b mod 65536) b)"
  by (simp add: toSizeFrame_def PutUint16_def unframe_def Uint16_PutUint16 unat_of_nat
      take_bit_eq_mod)

text \<open>
  Claim C8. For every byte string \<open>b\<close> of at most 65535 bytes, the frame is the
  big-endian 16-bit encoding of the length of \<open>b\<close> followed by \<open>b\<close>, and reading the
  frame back gives \<open>b\<close>.
\<close>

theorem toSizeFrame_roundtrip:
  "length b \<le> 65535 \<Longrightarrow>
     toSizeFrame b = be16 (length b) @ b \<and> unframe (toSizeFrame b) = Some b"
proof -
  assume "length b \<le> 65535"
  then have small: "length b mod 65536 = length b"
    by simp
  have "toSizeFrame b = be16 (length b) @ b"
    using toSizeFrame_bytes [of b] by (simp only: small)
  moreover have "unframe (toSizeFrame b) = Some b"
    using unframe_toSizeFrame [of b] by (simp only: small take_all order_refl)
  ultimately show ?thesis
    by (rule conjI)
qed

theorem toSizeFrame_roundtrip_witness:
  "length [1, 2, 3 :: byte] \<le> 65535 \<and>
   toSizeFrame [1, 2, 3] = [0, 3, 1, 2, 3] \<and>
   unframe (toSizeFrame [1, 2, 3]) = Some [1, 2, 3]"
  using toSizeFrame_roundtrip [of "[1, 2, 3]"] by (simp add: be16_def unframe_def Uint16_def)

text \<open>
  Claim C10. For every byte string \<open>b\<close> longer than 65535 bytes, the frame starts with
  the big-endian encoding of the length modulo 65536 and still carries all of \<open>b\<close>: the
  number the prefix announces is not the length of the payload that follows it.
\<close>

theorem toSizeFrame_truncates:
  "65535 < length b \<Longrightarrow>
     toSizeFrame b = be16 (length b mod 65536) @ b \<and>
     drop 2 (toSizeFrame b) = b \<and>
     unat (Uint16 (toSizeFrame b ! 0) (toSizeFrame b ! 1)) = length b mod 65536 \<and>
     unat (Uint16 (toSizeFrame b ! 0) (toSizeFrame b ! 1)) \<noteq> length (drop 2 (toSizeFrame b))"
proof -
  assume long: "65535 < length b"
  have d: "drop 2 (toSizeFrame b) = b"
    by (simp add: toSizeFrame_def PutUint16_def)
  have "length b mod 65536 < 65536"
    by simp
  with long have ne: "length b mod 65536 \<noteq> length b"
    by linarith
  have "unat (Uint16 (toSizeFrame b ! 0) (toSizeFrame b ! 1)) \<noteq> length (drop 2 (toSizeFrame b))"
    using ne by (simp only: d toSizeFrame_prefix_value) simp
  with d show ?thesis
    using toSizeFrame_bytes [of b] toSizeFrame_prefix_value [of b] by blast
qed

theorem toSizeFrame_truncates_witness:
  "65535 < length (replicate 65536 (0 :: byte)) \<and>
   take 2 (toSizeFrame (replicate 65536 0)) = [0, 0] \<and>
   drop 2 (toSizeFrame (replicate 65536 0)) = replicate 65536 0 \<and>
   unat (Uint16 (toSizeFrame (replicate 65536 0) ! 0) (toSizeFrame (replicate 65536 0) ! 1)) = 0"
  using toSizeFrame_truncates [of "replicate 65536 0"] by (simp add: be16_def Uint16_def)

section \<open>Properties of the ping summary\<close>







section \<open>Properties of the multiplexer: the read loop\<close>

lemmas lb_defs = loopback_def lb_control_def lb_data_def newMuxer_def peer_def
  lb_readPacket_def lb_parsePacketFromBytes_def lb_isACK_def lb_isControl_def lb_isData_def
  lb_isPing_def lb_pingPayload_def lb_isControlMessage_def lb_isBadAuthReply_def lb_isPushReply_def
  lb_tlsRead_def lb_tlsWrite_def lb_seal_def lb_open_def AUTH_FAILED_def PUSH_REPLY_def
  PUSH_REQUEST_def

lemmas muxer_defs = handleIncomingPacket_def handleDataPing_def called_def logger_def Let_def

lemmas handshake_defs = Handshake_def Reset_def InitDataWithRemoteKey_def sendControlMessage_def
  readAndLoadRemoteKey_def readTLSPacket_def sendPushRequest_def readPushReply_def called_def
  logger_def Let_def

lemma handleIncomingPacket_read_error:
  "readPacket P (world m) = (Inl e, w1) \<Longrightarrow>
     handleIncomingPacket P m = (False, logger ERROR ''%s'' [ArgErr e] (m\<lparr>world := w1\<rparr>))"
  by (simp add: handleIncomingPacket_def)

lemma Read_loop_hit:
  "fst (handleIncomingPacket P m) \<Longrightarrow> Read_loop P m = Some (snd (handleIncomingPacket P m))"
  by (subst Read_loop.simps) (cases "handleIncomingPacket P m", simp)

lemma Read_loop_skip:
  "\<not> fst (handleIncomingPacket P m) \<Longrightarrow> Read_loop P m = Read_loop P (snd (handleIncomingPacket P m))"
  by (subst Read_loop.simps) (cases "handleIncomingPacket P m", simp)

lemma Read_loop_skips:
  "(\<forall>j<k. \<not> fst (handleIncomingPacket P (pulls P j m))) \<Longrightarrow> Read_loop P m = Read_loop P (pulls P k m)"
proof (induction k arbitrary: m)
  case 0
  then show ?case by simp
next
  case (Suc k)
  from Suc.prems have first: "\<not> fst (handleIncomingPacket P m)"
    by (metis pulls.simps(1) zero_less_Suc)
  have rest: "\<forall>j<k. \<not> fst (handleIncomingPacket P (pulls P j (snd (handleIncomingPacket P m))))"
  proof (intro allI impI)
    fix j assume "j < k"
    then have "Suc j < Suc k" by simp
    with Suc.prems have "\<not> fst (handleIncomingPacket P (pulls P (Suc j) m))" by blast
    then show "\<not> fst (handleIncomingPacket P (pulls P j (snd (handleIncomingPacket P m))))" by simp
  qed
  show ?case
    using Read_loop_skip [OF first] Suc.IH [OF rest] by simp
qed

lemma Read_loop_Some_D:
  assumes "Read_loop P m = Some m'"
  shows "\<exists>k. (\<forall>j<k. \<not> fst (handleIncomingPacket P (pulls P j m))) \<and>
             fst (handleIncomingPacket P (pulls P k m)) \<and>
             m' = snd (handleIncomingPacket P (pulls P k m))"
proof -
  define Q :: "('a, 'b) pkg \<times> ('a, 'b) muxer \<Rightarrow> ('a, 'b) muxer \<Rightarrow> bool" where
    "Q = (\<lambda>(P, m) m'. \<exists>k. (\<forall>j<k. \<not> fst (handleIncomingPacket P (pulls P j m))) \<and>
             fst (handleIncomingPacket P (pulls P k m)) \<and>
             m' = snd (handleIncomingPacket P (pulls P k m)))"
  have "Q (P, m) m'"
  proof (rule Read_loop.raw_induct [where Pa = Q, OF _ assms])
    fix Rl :: "('a, 'b) pkg \<Rightarrow> ('a, 'b) muxer \<Rightarrow> ('a, 'b) muxer option"
    fix P m y
    assume IH: "\<And>P m y. Rl P m = Some y \<Longrightarrow> Q (P, m) y"
      and body: "(case handleIncomingPacket P m of (ok, m') \<Rightarrow> if ok then Some m' else Rl P m') = Some y"
    show "Q (P, m) y"
    proof (cases "fst (handleIncomingPacket P m)")
      case True
      with body have "y = snd (handleIncomingPacket P m)"
        by (cases "handleIncomingPacket P m") simp
      with True have "(\<forall>j<0. \<not> fst (handleIncomingPacket P (pulls P j m))) \<and>
           fst (handleIncomingPacket P (pulls P 0 m)) \<and> y = snd (handleIncomingPacket P (pulls P 0 m))"
        by simp
      then show ?thesis
        unfolding Q_def by blast
    next
      case False
      with body have "Rl P (snd (handleIncomingPacket P m)) = Some y"
        by (cases "handleIncomingPacket P m") simp
      from IH [OF this] obtain k where
        k: "\<forall>j<k. \<not> fst (handleIncomingPacket P (pulls P j (snd (handleIncomingPacket P m))))"
           "fst (handleIncomingPacket P (pulls P k (snd (handleIncomingPacket P m))))"
           "y = snd (handleIncomingPacket P (pulls P k (snd (handleIncomingPacket P m))))"
        unfolding Q_def by blast
      have "\<forall>j<Suc k. \<not> fst (handleIncomingPacket P (pulls P j m))"
      proof (intro allI impI)
        fix j assume "j < Suc k"
        then show "\<not> fst (handleIncomingPacket P (pulls P j m))"
          using False k(1) by (cases j) simp_all
      qed
      with k(2,3) have "(\<forall>j<Suc k. \<not> fst (handleIncomingPacket P (pulls P j m))) \<and>
           fst (handleIncomingPacket P (pulls P (Suc k) m)) \<and>
           y = snd (handleIncomingPacket P (pulls P (Suc k) m))"
        by simp
      then show ?thesis
        unfolding Q_def by blast
    qed
  qed
  then show ?thesis
    by (simp add: Q_def)
qed

lemma Read_loop_None:
  "(\<forall>k. \<not> fst (handleIncomingPacket P (pulls P k m))) \<Longrightarrow> Read_loop P m = None"
  using Read_loop_Some_D [of P m] by (cases "Read_loop P m") auto


lemma handleIncomingPacket_True_D:
  assumes "fst (handleIncomingPacket P m)"
  shows "\<exists>dat w1 p plaintext w2.
           readPacket P (world m) = (Inr dat, w1) \<and> parsePacketFromBytes P dat = Inr p \<and>
           \<not> isACK P p \<and> \<not> isControl P p \<and> isData P p \<and> \<not> isPing P dat \<and>
           ReadPacket (data m) p w1 = (Inr plaintext, w2) \<and>
           snd (handleIncomingPacket P m) =
             m\<lparr>world := w2, bufReader := bufReader m @ plaintext, calls := calls m @ [Call_ReadPacket p]\<rparr>"
  using assms
  by (auto simp: muxer_defs split: prod.splits sum.splits if_splits)

lemma handleIncomingPacket_True_I:
  assumes "readPacket P (world m) = (Inr dat, w1)" and "parsePacketFromBytes P dat = Inr p"
    and "\<not> isACK P p" and "\<not> isControl P p" and "isData P p" and "\<not> isPing P dat"
    and "ReadPacket (data m) p w1 = (Inr plaintext, w2)"
  shows "fst (handleIncomingPacket P m)"
  using assms by (simp add: muxer_defs)

lemma drain_Suc: "drain P (Suc k) w = snd (readPacket P (drain P k w))"
  by (induction k arbitrary: w) simp_all

lemma transport_down_next: "transport_down P w \<Longrightarrow> transport_down P (snd (readPacket P w))"
  unfolding transport_down_def
proof
  fix k
  assume "\<forall>k. isl (fst (readPacket P (drain P k w)))"
  then have "isl (fst (readPacket P (drain P (Suc k) w)))" ..
  then show "isl (fst (readPacket P (drain P k (snd (readPacket P w)))))"
    by simp
qed

lemma handleIncomingPacket_down:
  assumes "isl (fst (readPacket P (world m)))"
  shows "\<not> fst (handleIncomingPacket P m)"
    and "world (snd (handleIncomingPacket P m)) = snd (readPacket P (world m))"
    and "bufReader (snd (handleIncomingPacket P m)) = bufReader m"
    and "calls (snd (handleIncomingPacket P m)) = calls m"
  using assms
  by (auto simp: muxer_defs split: prod.splits sum.splits)

lemma pulls_down:
  "transport_down P (world m) \<Longrightarrow>
     transport_down P (world (pulls P k m)) \<and> \<not> fst (handleIncomingPacket P (pulls P k m))"
proof (induction k arbitrary: m)
  case 0
  then have "isl (fst (readPacket P (drain P 0 (world m))))"
    unfolding transport_down_def ..
  then show ?case
    using 0 handleIncomingPacket_down(1) [of P m] by simp
next
  case (Suc k)
  from Suc.prems have "isl (fst (readPacket P (drain P 0 (world m))))"
    unfolding transport_down_def ..
  then have "world (snd (handleIncomingPacket P m)) = snd (readPacket P (world m))"
    using handleIncomingPacket_down(2) [of P m] by simp
  with Suc.prems have "transport_down P (world (snd (handleIncomingPacket P m)))"
    by (simp add: transport_down_next)
  from Suc.IH [OF this] show ?case
    by simp
qed

lemma Read_loop_transport_down: "transport_down P (world m) \<Longrightarrow> Read_loop P m = None"
  by (rule Read_loop_None) (simp add: pulls_down)

lemma transport_down_closed: "net_in w = [] \<Longrightarrow> transport_down loopback w"
proof -
  assume e: "net_in w = []"
  have "drain loopback k w = w" for k
    by (induction k) (simp_all add: drain_Suc loopback_def lb_readPacket_def e)
  then show ?thesis
    by (simp add: transport_down_def loopback_def lb_readPacket_def e)
qed

lemma established_eq:
  "established packets =
     \<lparr>world = \<lparr>net_in = packets,
                net_out = [[0x38, 1, 2, 3, 4, 5, 6, 7, 8], [0x28, 1, 2, 3, 4, 5, 6, 7, 8, 1, 0]],
                tls_in = [], tls_out = [[0, 0, 0, 0, 2], PUSH_REQUEST],
                active_slot = 0, local_in = [0], remote_in = [0], keys_ready = True,
                tx_next = 1, rx_high = 0, dropped = 0\<rparr>,
      tls = Some 0, control = lb_control, data = lb_data, bufReader = [],
      session = \<lparr>RemoteSessionID = [9, 9, 9, 9, 9, 9, 9, 9], LocalSessionID = [1, 2, 3, 4, 5, 6, 7, 8]\<rparr>,
      tunnel = \<lparr>ip = ''10.8.0.6''\<rparr>, options = 0,
      calls = [Call_SendHardReset, Call_ParseHardReset, Call_SendACK 0,
               Call_ControlMessage, Call_tlsWrite [0, 0, 0, 0, 2], Call_ReadControlMessage,
               Call_addRemoteKey 0 1, Call_SetupKeys 0,
               Call_PushRequest, Call_tlsWrite PUSH_REQUEST, Call_ReadPushResponse],
      logs = [Log INFO ''Remote session ID: %x'' [ArgBytes [9, 9, 9, 9, 9, 9, 9, 9]],
              Log INFO ''Local session ID:  %x'' [ArgBytes [1, 2, 3, 4, 5, 6, 7, 8]],
              Log INFO ''TLS handshake done'' [],
              Log INFO ''Server pushed options'' [],
              Log INFO ''Tunnel IP: %s'' [ArgStr ''10.8.0.6''],
              Log INFO ''VPN handshake done'' []]\<rparr>"
  by (simp add: established_def handshake_defs loopback_def lb_control_def lb_data_def
      newMuxer_def peer_def lb_readPacket_def lb_isControlMessage_def lb_isBadAuthReply_def
      lb_isPushReply_def lb_tlsRead_def lb_tlsWrite_def AUTH_FAILED_def PUSH_REPLY_def)

lemma established_fields:
  "data (established packets) = lb_data"
  "control (established packets) = lb_control"
  "bufReader (established packets) = []"
  "net_in (world (established packets)) = packets"
  "keys_ready (world (established packets))"
  "rx_high (world (established packets)) = 0"
  "tx_next (world (established packets)) = 1"
  "dropped (world (established packets)) = 0"
  "net_out (world (established packets)) =
     [[0x38, 1, 2, 3, 4, 5, 6, 7, 8], [0x28, 1, 2, 3, 4, 5, 6, 7, 8, 1, 0]]"
  by (simp_all add: established_eq)

lemma established_next:
  "(established packets)\<lparr>world := (world (established packets))\<lparr>net_in := rest\<rparr>\<rparr> = established rest"
  by (simp add: established_eq)

text \<open>
  Claim C1, as the code has it. \<^verbatim>\<open>Read\<close> returns exactly when one of the packets it
  pulls is a data packet that the data handler decrypts: if it returns, some pull \<open>k\<close>,
  the first that succeeds, read a packet that parsed as data and that \<^verbatim>\<open>ReadPacket\<close>
  turned into a plaintext, and the caller gets the first \<open>n\<close> bytes of the read buffer
  (what was left in it, then that plaintext); if it does not return, no pull ever
  succeeds. A failed transport read does not end the loop, so on a transport that is
  down \<^verbatim>\<open>Read\<close> does not return, with an error or otherwise.
\<close>

theorem Read_returns_only_after_decrypting_data:
  "(case Read P m n of
      None \<Rightarrow> \<forall>k. \<not> fst (handleIncomingPacket P (pulls P k m))
    | Some ((out, err), m') \<Rightarrow>
        \<exists>k dat w1 p plaintext w2.
          (\<forall>j<k. \<not> fst (handleIncomingPacket P (pulls P j m))) \<and>
          readPacket P (world (pulls P k m)) = (Inr dat, w1) \<and>
          parsePacketFromBytes P dat = Inr p \<and> isData P p \<and>
          ReadPacket (data (pulls P k m)) p w1 = (Inr plaintext, w2) \<and>
          (out, err, bufReader m') = Buffer_Read (bufReader (pulls P k m) @ plaintext) n)
   \<and> (fst (handleIncomingPacket P m) \<longleftrightarrow>
        (\<exists>dat w1 p plaintext w2.
           readPacket P (world m) = (Inr dat, w1) \<and> parsePacketFromBytes P dat = Inr p \<and>
           \<not> isACK P p \<and> \<not> isControl P p \<and> isData P p \<and> \<not> isPing P dat \<and>
           ReadPacket (data m) p w1 = (Inr plaintext, w2)))
   \<and> (transport_down P (world m) \<longrightarrow> Read P m n = None)"
proof (intro conjI impI)
  show "fst (handleIncomingPacket P m) \<longleftrightarrow>
        (\<exists>dat w1 p plaintext w2.
           readPacket P (world m) = (Inr dat, w1) \<and> parsePacketFromBytes P dat = Inr p \<and>
           \<not> isACK P p \<and> \<not> isControl P p \<and> isData P p \<and> \<not> isPing P dat \<and>
           ReadPacket (data m) p w1 = (Inr plaintext, w2))"
    using handleIncomingPacket_True_D [of P m] handleIncomingPacket_True_I [of P m] by blast
next
  show "case Read P m n of
      None \<Rightarrow> \<forall>k. \<not> fst (handleIncomingPacket P (pulls P k m))
    | Some ((out, err), m') \<Rightarrow>
        \<exists>k dat w1 p plaintext w2.
          (\<forall>j<k. \<not> fst (handleIncomingPacket P (pulls P j m))) \<and>
          readPacket P (world (pulls P k m)) = (Inr dat, w1) \<and>
          parsePacketFromBytes P dat = Inr p \<and> isData P p \<and>
          ReadPacket (data (pulls P k m)) p w1 = (Inr plaintext, w2) \<and>
          (out, err, bufReader m') = Buffer_Read (bufReader (pulls P k m) @ plaintext) n"
  proof (cases "Read_loop P m")
    case None
    have "\<not> fst (handleIncomingPacket P (pulls P k m))" for k
    proof
      assume hit: "fst (handleIncomingPacket P (pulls P k m))"
      define k0 where "k0 = (LEAST i. fst (handleIncomingPacket P (pulls P i m)))"
      have k0: "fst (handleIncomingPacket P (pulls P k0 m))"
        unfolding k0_def using hit by (rule LeastI)
      have "\<forall>j<k0. \<not> fst (handleIncomingPacket P (pulls P j m))"
        unfolding k0_def using not_less_Least by blast
      then have "Read_loop P m = Read_loop P (pulls P k0 m)"
        by (rule Read_loop_skips)
      with k0 None show False
        by (simp add: Read_loop_hit)
    qed
    with None show ?thesis
      by (simp add: Read_def)
  next
    case (Some mk)
    from Read_loop_Some_D [OF Some] obtain k where
      k: "\<forall>j<k. \<not> fst (handleIncomingPacket P (pulls P j m))"
         "fst (handleIncomingPacket P (pulls P k m))"
         "mk = snd (handleIncomingPacket P (pulls P k m))"
      by blast
    from handleIncomingPacket_True_D [OF k(2)] obtain dat w1 p plaintext w2 where
      d: "readPacket P (world (pulls P k m)) = (Inr dat, w1)" "parsePacketFromBytes P dat = Inr p"
         "isData P p" "ReadPacket (data (pulls P k m)) p w1 = (Inr plaintext, w2)"
         "snd (handleIncomingPacket P (pulls P k m)) =
            (pulls P k m)\<lparr>world := w2, bufReader := bufReader (pulls P k m) @ plaintext,
               calls := calls (pulls P k m) @ [Call_ReadPacket p]\<rparr>"
      by blast
    from k(3) d(5) have buf: "bufReader mk = bufReader (pulls P k m) @ plaintext"
      by simp
    obtain out err rest where br: "Buffer_Read (bufReader mk) n = (out, err, rest)"
      by (cases "Buffer_Read (bufReader mk) n") auto
    with Some have "Read P m n = Some ((out, err), mk\<lparr>bufReader := rest\<rparr>)"
      by (simp add: Read_def)
    moreover have "(out, err, bufReader (mk\<lparr>bufReader := rest\<rparr>)) =
        Buffer_Read (bufReader (pulls P k m) @ plaintext) n"
      using br buf by simp
    ultimately show ?thesis
      using k(1) d(1-4) by (simp del: pulls.simps) blast
  qed
next
  assume "transport_down P (world m)"
  then show "Read P m n = None"
    by (simp add: Read_def Read_loop_transport_down)
qed

theorem Read_returns_only_after_decrypting_data_witness:
  "transport_down loopback (world (established [])) \<and>
   Read loopback (established []) 16 = None \<and>
   \<not> fst (handleIncomingPacket loopback
           (pulls loopback 0 (established [Inl (Foreign ''timeout''), Inr [0x30, 1, 1, 7, 7, 7]]))) \<and>
   fst (handleIncomingPacket loopback
           (pulls loopback 1 (established [Inl (Foreign ''timeout''), Inr [0x30, 1, 1, 7, 7, 7]]))) \<and>
   Read loopback (established [Inl (Foreign ''timeout''), Inr [0x30, 1, 1, 7, 7, 7]]) 16 =
     Some (([7, 7, 7], None),
           (established [])
             \<lparr>world := (world (established []))\<lparr>rx_high := 1\<rparr>,
              calls := calls (established []) @
                         [Call_ReadPacket \<lparr>opcode = 6, payload = [1, 1, 7, 7, 7]\<rparr>],
              logs := logs (established []) @ [Log ERROR ''%s'' [ArgErr (Foreign ''timeout'')]]\<rparr>)"
proof -
  let ?m = "established [Inl (Foreign ''timeout''), Inr [0x30, 1, 1, 7, 7, 7]]"
  have down: "transport_down loopback (world (established []))"
    by (rule transport_down_closed) (simp add: established_fields)
  with Read_returns_only_after_decrypting_data [of loopback "established []" 16]
  have none: "Read loopback (established []) 16 = None"
    by blast
  have run: "Read loopback ?m 16 =
     Some (([7, 7, 7], None),
           (established [])
             \<lparr>world := (world (established []))\<lparr>rx_high := 1\<rparr>,
              calls := calls (established []) @
                         [Call_ReadPacket \<lparr>opcode = 6, payload = [1, 1, 7, 7, 7]\<rparr>],
              logs := logs (established []) @ [Log ERROR ''%s'' [ArgErr (Foreign ''timeout'')]]\<rparr>)"
    apply (simp add: Read_def established_eq)
    apply (subst Read_loop.simps)
    apply (simp add: muxer_defs lb_defs)
    apply (subst Read_loop.simps)
    apply (simp add: muxer_defs lb_defs Buffer_Read_def)
    done
  have steps: "\<not> fst (handleIncomingPacket loopback (pulls loopback 0 ?m))"
    "fst (handleIncomingPacket loopback (pulls loopback 1 ?m))"
    by (simp_all add: established_eq muxer_defs lb_defs)
  from down none steps run show ?thesis
    by blast
qed

text \<open>
  The claim as it was stated fails: on a closed connection, where every read fails,
  \<^verbatim>\<open>Read\<close> does not hand the error to its caller; it never returns.
\<close>

theorem Read_spins_on_a_closed_transport:
  "Read loopback (newMuxer (peer [] [])) 16 = None"
  by (simp add: Read_def Read_loop_transport_down transport_down_closed newMuxer_def peer_def)

text \<open>
  Claim C2, as the code has it. A packet that parses as an ACK or as a control packet is
  logged and dropped. \<^verbatim>\<open>handleIncomingPacket\<close> returns false, so \<^verbatim>\<open>Read\<close> goes on with
  the next packet; the connection has moved past the packet, and the log has one more
  line for an ACK (the warning that it is ignored) and two for a control packet (its
  length and the dump of its payload). Nothing else changes: no method of a handler is
  called (nothing is sent, no ACK in particular) and nothing reaches the read buffer.
\<close>

theorem control_and_ACK_packets_are_ignored:
  assumes "readPacket P (world m) = (Inr dat, w1)"
    and "parsePacketFromBytes P dat = Inr p"
    and "isACK P p \<or> isControl P p"
  shows "handleIncomingPacket P m =
           (False,
            m\<lparr>world := w1,
              logs := logs m @
                (if isACK P p then [Log WARN ''muxer: got ACK (ignored)'' []]
                 else [Log INFO ''Got control packet: %d'' [ArgNat (length dat)],
                       Log STDOUT ''hex.Dump'' [ArgBytes (payload p)]])\<rparr>) \<and>
         calls (snd (handleIncomingPacket P m)) = calls m \<and>
         bufReader (snd (handleIncomingPacket P m)) = bufReader m \<and>
         Read P m n = Read P (snd (handleIncomingPacket P m)) n"
proof -
  have a: "handleIncomingPacket P m =
           (False,
            m\<lparr>world := w1,
              logs := logs m @
                (if isACK P p then [Log WARN ''muxer: got ACK (ignored)'' []]
                 else [Log INFO ''Got control packet: %d'' [ArgNat (length dat)],
                       Log STDOUT ''hex.Dump'' [ArgBytes (payload p)]])\<rparr>)"
    using assms by (auto simp: muxer_defs)
  have c: "calls (snd (handleIncomingPacket P m)) = calls m"
    by (subst a) simp
  have d: "bufReader (snd (handleIncomingPacket P m)) = bufReader m"
    by (subst a) simp
  have "\<not> fst (handleIncomingPacket P m)"
    by (subst a) simp
  then have "Read P m n = Read P (snd (handleIncomingPacket P m)) n"
    by (simp add: Read_def Read_loop_skip)
  with a c d show ?thesis
    by blast
qed

theorem control_and_ACK_packets_are_ignored_witness:
  "readPacket loopback (world (established [Inr [0x20, 0, 0, 0, 1], Inr [0x28, 0, 0, 0, 2]])) =
     (Inr [0x20, 0, 0, 0, 1], world (established [Inr [0x28, 0, 0, 0, 2]])) \<and>
   parsePacketFromBytes loopback [0x20, 0, 0, 0, 1] = Inr \<lparr>opcode = 4, payload = [0, 0, 0, 1]\<rparr> \<and>
   isControl loopback \<lparr>opcode = 4, payload = [0, 0, 0, 1]\<rparr> \<and>
   handleIncomingPacket loopback (established [Inr [0x20, 0, 0, 0, 1], Inr [0x28, 0, 0, 0, 2]]) =
     (False,
      (established [Inr [0x28, 0, 0, 0, 2]])
        \<lparr>logs := logs (established []) @
                  [Log INFO ''Got control packet: %d'' [ArgNat 5],
                   Log STDOUT ''hex.Dump'' [ArgBytes [0, 0, 0, 1]]]\<rparr>) \<and>
   isACK loopback \<lparr>opcode = 5, payload = [0, 0, 0, 2]\<rparr> \<and>
   handleIncomingPacket loopback (established [Inr [0x28, 0, 0, 0, 2]]) =
     (False,
      (established [])
        \<lparr>logs := logs (established []) @ [Log WARN ''muxer: got ACK (ignored)'' []]\<rparr>)"
proof -
  let ?m = "established [Inr [0x20, 0, 0, 0, 1], Inr [0x28, 0, 0, 0, 2]]"
  let ?w1 = "world (established [Inr [0x28, 0, 0, 0, 2]])"
  let ?p = "\<lparr>opcode = 4, payload = [0, 0, 0, 1]\<rparr>"
  let ?m2 = "established [Inr [0x28, 0, 0, 0, 2]]"
  let ?q = "\<lparr>opcode = 5, payload = [0, 0, 0, 2]\<rparr>"
  have h1: "readPacket loopback (world ?m) = (Inr [0x20, 0, 0, 0, 1], ?w1)"
    by (simp add: established_eq lb_defs)
  have h2: "parsePacketFromBytes loopback [0x20, 0, 0, 0, 1] = Inr ?p"
    by (simp add: lb_defs)
  have h3: "isACK loopback ?p \<or> isControl loopback ?p"
    by (simp add: lb_defs)
  have h4: "isControl loopback ?p" "\<not> isACK loopback ?p"
    by (simp_all add: lb_defs)
  have g1: "readPacket loopback (world ?m2) = (Inr [0x28, 0, 0, 0, 2], world (established []))"
    by (simp add: established_eq lb_defs)
  have g2: "parsePacketFromBytes loopback [0x28, 0, 0, 0, 2] = Inr ?q"
    by (simp add: lb_defs)
  have g3: "isACK loopback ?q \<or> isControl loopback ?q"
    by (simp add: lb_defs)
  have g4: "isACK loopback ?q"
    by (simp add: lb_defs)
  from control_and_ACK_packets_are_ignored [OF h1 h2 h3] h4(2)
  have r1: "handleIncomingPacket loopback ?m =
     (False,
      ?m\<lparr>world := ?w1,
         logs := logs ?m @ [Log INFO ''Got control packet: %d'' [ArgNat (length [0x20, 0, 0, 0, 1 :: byte])],
                   Log STDOUT ''hex.Dump'' [ArgBytes (payload ?p)]]\<rparr>)"
    by simp
  from control_and_ACK_packets_are_ignored [OF g1 g2 g3] g4
  have r2: "handleIncomingPacket loopback ?m2 =
     (False,
      ?m2\<lparr>world := world (established []),
         logs := logs ?m2 @ [Log WARN ''muxer: got ACK (ignored)'' []]\<rparr>)"
    by simp
  have r1': "handleIncomingPacket loopback ?m =
     (False,
      (established [Inr [0x28, 0, 0, 0, 2]])
        \<lparr>logs := logs (established []) @
                  [Log INFO ''Got control packet: %d'' [ArgNat 5],
                   Log STDOUT ''hex.Dump'' [ArgBytes [0, 0, 0, 1]]]\<rparr>)"
    by (subst r1) (simp add: established_eq)
  have r2': "handleIncomingPacket loopback ?m2 =
     (False,
      (established [])
        \<lparr>logs := logs (established []) @ [Log WARN ''muxer: got ACK (ignored)'' []]\<rparr>)"
    by (subst r2) (simp add: established_eq)
  from h1 h2 h4(1) g4 r1' r2' show ?thesis
    by blast
qed

text \<open>
  The claim as it was stated fails: after the handshake a control packet arrives, then a
  data packet; \<^verbatim>\<open>Read\<close> returns the data. In the whole run the only call to a handler is
  the \<^verbatim>\<open>ReadPacket\<close> of the data packet, and what is on the wire afterwards is what the
  handshake had put there: no packet went out, so no ACK names the control packet.
\<close>

theorem control_packet_is_never_acknowledged:
  "Read loopback (established [Inr [0x20, 0, 0, 0, 1], Inr [0x30, 1, 1, 7, 7, 7]]) 16 =
     Some (([7, 7, 7], None),
           (established [])
             \<lparr>world := (world (established []))\<lparr>rx_high := 1\<rparr>,
              calls := calls (established []) @
                         [Call_ReadPacket \<lparr>opcode = 6, payload = [1, 1, 7, 7, 7]\<rparr>],
              logs := logs (established []) @
                        [Log INFO ''Got control packet: %d'' [ArgNat 5],
                         Log STDOUT ''hex.Dump'' [ArgBytes [0, 0, 0, 1]]]\<rparr>) \<and>
   net_out ((world (established []))\<lparr>rx_high := 1\<rparr>) = net_out (world (established []))"
  apply (simp add: Read_def established_eq)
  apply (subst Read_loop.simps)
  apply (simp add: muxer_defs lb_defs)
  apply (subst Read_loop.simps)
  apply (simp add: muxer_defs lb_defs Buffer_Read_def)
  done

section \<open>Properties of the multiplexer over the loopback instance: data packets\<close>

text \<open>
  What the code does with a data packet, for every choice of the collaborators: the ping
  test on the bytes as they were read, then \<^verbatim>\<open>ReadPacket\<close>; an error is logged and the
  packet dropped, a plaintext is appended to the read buffer.
\<close>

lemma handleIncomingPacket_wire_ping:
  assumes "readPacket P (world m) = (Inr dat, w1)" and "parsePacketFromBytes P dat = Inr p"
    and "\<not> isACK P p" and "\<not> isControl P p" and "isData P p" and "isPing P dat"
  shows "handleIncomingPacket P m =
           (False,
            m\<lparr>world := snd (WritePacket (data m) (pingPayload P) w1),
              calls := calls m @ [Call_WritePacket (pingPayload P)],
              logs := logs m @ [Log STDOUT ''openvpn-ping, sending reply'' []]\<rparr>)"
  using assms by (simp add: muxer_defs split: prod.splits)

lemma handleIncomingPacket_bad_decryption:
  assumes "readPacket P (world m) = (Inr dat, w1)" and "parsePacketFromBytes P dat = Inr p"
    and "\<not> isACK P p" and "\<not> isControl P p" and "isData P p" and "\<not> isPing P dat"
    and "ReadPacket (data m) p w1 = (Inl e, w2)"
  shows "handleIncomingPacket P m =
           (False,
            m\<lparr>world := w2, calls := calls m @ [Call_ReadPacket p],
              logs := logs m @ [Log ERROR ''bad decryption: %s'' [ArgErr e]]\<rparr>)"
  using assms by (simp add: muxer_defs)

lemma handleIncomingPacket_plaintext:
  assumes "readPacket P (world m) = (Inr dat, w1)" and "parsePacketFromBytes P dat = Inr p"
    and "\<not> isACK P p" and "\<not> isControl P p" and "isData P p" and "\<not> isPing P dat"
    and "ReadPacket (data m) p w1 = (Inr plaintext, w2)"
  shows "handleIncomingPacket P m =
           (True,
            m\<lparr>world := w2, bufReader := bufReader m @ plaintext,
              calls := calls m @ [Call_ReadPacket p]\<rparr>)"
  using assms by (simp add: muxer_defs)

text \<open>
  Under the codec of the specification the bytes of a data packet are never the ping
  magic (the magic starts with \<open>0x2A\<close>, which reads as the opcode of an ACK), so for the
  loopback instance the multiplexer's own ping test lets every data packet through to
  the data handler.
\<close>

lemma lb_data_packet_is_not_wire_ping:
  assumes "lb_parsePacketFromBytes dat = Inr p" and "lb_isData p"
  shows "\<not> lb_isPing dat" and "\<not> lb_isACK p" and "\<not> lb_isControl p"
  using assms
  by (auto simp: lb_parsePacketFromBytes_def lb_isData_def lb_isPing_def lb_pingPayload_def
      lb_isACK_def lb_isControl_def Let_def split: list.splits if_splits)

lemma lb_open_after_read: "lb_open (w\<lparr>net_in := rest\<rparr>) p = lb_open w p"
  by (simp add: lb_open_def split: list.splits)

lemma lb_open_seal:
  assumes "keys_ready w" and "rx_high w < i" and "i < 256"
  shows "lb_parsePacketFromBytes (lb_seal i b) = Inr \<lparr>opcode = 6, payload = [1, of_nat i] @ b\<rparr>"
    and "lb_open w \<lparr>opcode = 6, payload = [1, of_nat i] @ b\<rparr> = Inr (i, b)"
  using assms
  by (simp_all add: lb_parsePacketFromBytes_def lb_seal_def lb_open_def unat_of_nat take_bit_eq_mod)



text \<open>
  Claim C4. A data packet arrives that fails authentication or the replay check (or that
  cannot be decrypted at all). Then \<^verbatim>\<open>handleIncomingPacket\<close> returns false and adds
  nothing to the read buffer; nothing is sent; the data handler's count of rejected
  packets goes up by one and the error is written to the log; and \<^verbatim>\<open>Read\<close> goes on
  with the next packet, so what it returns is what the packets after this one make it
  return: the error does not reach its caller.
\<close>

theorem rejected_data_packet_is_dropped_and_counted:
  assumes "data m = lb_data"
    and "net_in (world m) = Inr dat # rest"
    and "lb_parsePacketFromBytes dat = Inr p" and "lb_isData p"
    and "lb_open (world m) p = Inl e"
  shows "\<not> fst (handleIncomingPacket loopback m) \<and>
         bufReader (snd (handleIncomingPacket loopback m)) = bufReader m \<and>
         net_out (world (snd (handleIncomingPacket loopback m))) = net_out (world m) \<and>
         dropped (world (snd (handleIncomingPacket loopback m))) = Suc (dropped (world m)) \<and>
         logs (snd (handleIncomingPacket loopback m)) =
           logs m @ [Log ERROR ''bad decryption: %s'' [ArgErr e]] \<and>
         Read loopback m n = Read loopback (snd (handleIncomingPacket loopback m)) n"
proof -
  let ?w1 = "(world m)\<lparr>net_in := rest\<rparr>"
  let ?w2 = "?w1\<lparr>dropped := Suc (dropped (world m))\<rparr>"
  have r: "readPacket loopback (world m) = (Inr dat, ?w1)"
    using assms(2) by (simp add: loopback_def lb_readPacket_def)
  have p: "parsePacketFromBytes loopback dat = Inr p"
    using assms(3) by (simp add: loopback_def)
  note n = lb_data_packet_is_not_wire_ping [OF assms(3,4)]
  have rp: "ReadPacket (data m) p ?w1 = (Inl e, ?w2)"
    using assms(1,5) by (simp add: lb_data_def lb_open_after_read)
  have h: "handleIncomingPacket loopback m =
      (False,
       m\<lparr>world := ?w2, calls := calls m @ [Call_ReadPacket p],
         logs := logs m @ [Log ERROR ''bad decryption: %s'' [ArgErr e]]\<rparr>)"
    using n assms(4)
    by (intro handleIncomingPacket_bad_decryption [OF r p _ _ _ _ rp]) (simp_all add: loopback_def)
  have "\<not> fst (handleIncomingPacket loopback m)"
    by (subst h) simp
  then have "Read loopback m n = Read loopback (snd (handleIncomingPacket loopback m)) n"
    by (simp add: Read_def Read_loop_skip)
  then show ?thesis
    by (simp add: h)
qed

theorem rejected_data_packet_is_dropped_and_counted_witness:
  "data (established [Inr [0x30, 0, 1, 9], Inr (lb_seal 1 [7, 7, 7])]) = lb_data \<and>
   lb_parsePacketFromBytes [0x30, 0, 1, 9] = Inr \<lparr>opcode = 6, payload = [0, 1, 9]\<rparr> \<and>
   lb_isData \<lparr>opcode = 6, payload = [0, 1, 9]\<rparr> \<and>
   lb_open (world (established [Inr [0x30, 0, 1, 9], Inr (lb_seal 1 [7, 7, 7])]))
     \<lparr>opcode = 6, payload = [0, 1, 9]\<rparr> = Inl (Foreign ''BadAuthentication'') \<and>
   dropped (world (snd (handleIncomingPacket loopback
      (established [Inr [0x30, 0, 1, 9], Inr (lb_seal 1 [7, 7, 7])])))) = 1 \<and>
   Read loopback (established [Inr [0x30, 0, 1, 9], Inr (lb_seal 1 [7, 7, 7])]) 16 =
     Some (([7, 7, 7], None),
           (established [])
             \<lparr>world := (world (established []))\<lparr>rx_high := 1, dropped := 1\<rparr>,
              calls := calls (established []) @
                 [Call_ReadPacket \<lparr>opcode = 6, payload = [0, 1, 9]\<rparr>,
                  Call_ReadPacket \<lparr>opcode = 6, payload = [1, 1, 7, 7, 7]\<rparr>],
              logs := logs (established []) @
                 [Log ERROR ''bad decryption: %s'' [ArgErr (Foreign ''BadAuthentication'')]]\<rparr>) \<and>
   handleIncomingPacket loopback (established [Inr (lb_seal 1 [8]), Inr (lb_seal 1 [8])]) =
     (True,
      (established [Inr (lb_seal 1 [8])])
        \<lparr>world := (world (established [Inr (lb_seal 1 [8])]))\<lparr>rx_high := 1\<rparr>,
         bufReader := [8],
         calls := calls (established []) @ [Call_ReadPacket \<lparr>opcode = 6, payload = [1, 1, 8]\<rparr>]\<rparr>) \<and>
   lb_open ((world (established [Inr (lb_seal 1 [8])]))\<lparr>rx_high := 1\<rparr>)
     \<lparr>opcode = 6, payload = [1, 1, 8]\<rparr> = Inl (Foreign ''Replay'') \<and>
   dropped (world (snd (handleIncomingPacket loopback
      (snd (handleIncomingPacket loopback
         (established [Inr (lb_seal 1 [8]), Inr (lb_seal 1 [8])])))))) = 1 \<and>
   bufReader (snd (handleIncomingPacket loopback
      (snd (handleIncomingPacket loopback
         (established [Inr (lb_seal 1 [8]), Inr (lb_seal 1 [8])]))))) = [8]"
proof -
  let ?m = "established [Inr [0x30, 0, 1, 9], Inr (lb_seal 1 [7, 7, 7])]"
  let ?p = "\<lparr>opcode = 6, payload = [0, 1, 9]\<rparr>"
  have h1: "data ?m = lb_data"
    by (simp add: established_fields)
  have h2: "net_in (world ?m) = Inr [0x30, 0, 1, 9] # [Inr (lb_seal 1 [7, 7, 7])]"
    by (simp add: established_fields)
  have h3: "lb_parsePacketFromBytes [0x30, 0, 1, 9] = Inr ?p"
    by (simp add: lb_parsePacketFromBytes_def)
  have h4: "lb_isData ?p"
    by (simp add: lb_isData_def)
  have h5: "lb_open (world ?m) ?p = Inl (Foreign ''BadAuthentication'')"
    by (simp add: lb_open_def established_fields)
  from rejected_data_packet_is_dropped_and_counted [OF h1 h2 h3 h4 h5, of 16]
  have cnt: "dropped (world (snd (handleIncomingPacket loopback ?m))) = 1"
    by (simp add: established_fields)
  have run: "Read loopback ?m 16 =
     Some (([7, 7, 7], None),
           (established [])
             \<lparr>world := (world (established []))\<lparr>rx_high := 1, dropped := 1\<rparr>,
              calls := calls (established []) @
                 [Call_ReadPacket ?p, Call_ReadPacket \<lparr>opcode = 6, payload = [1, 1, 7, 7, 7]\<rparr>],
              logs := logs (established []) @
                 [Log ERROR ''bad decryption: %s'' [ArgErr (Foreign ''BadAuthentication'')]]\<rparr>)"
    apply (simp add: Read_def established_eq)
    apply (subst Read_loop.simps)
    apply (simp add: muxer_defs lb_defs)
    apply (subst Read_loop.simps)
    apply (simp add: muxer_defs lb_defs Buffer_Read_def)
    done
  let ?a = "lb_seal 1 [8]"
  let ?q = "\<lparr>opcode = 6, payload = [1, 1, 8]\<rparr>"
  let ?m1 = "(established [Inr ?a])
        \<lparr>world := (world (established [Inr ?a]))\<lparr>rx_high := 1\<rparr>,
         bufReader := [8],
         calls := calls (established []) @ [Call_ReadPacket ?q]\<rparr>"
  have first: "handleIncomingPacket loopback (established [Inr ?a, Inr ?a]) = (True, ?m1)"
    by (simp add: established_eq muxer_defs lb_defs)
  have g1: "data ?m1 = lb_data"
    by (simp add: established_fields)
  have g2: "net_in (world ?m1) = Inr ?a # []"
    by (simp add: established_fields)
  have g3: "lb_parsePacketFromBytes ?a = Inr ?q"
    by (simp add: lb_parsePacketFromBytes_def lb_seal_def)
  have g4: "lb_isData ?q"
    by (simp add: lb_isData_def)
  have g5: "lb_open (world ?m1) ?q = Inl (Foreign ''Replay'')"
    by (simp add: lb_open_def established_fields)
  from rejected_data_packet_is_dropped_and_counted [OF g1 g2 g3 g4 g5, of 16]
  have again: "dropped (world (snd (handleIncomingPacket loopback ?m1))) = 1"
    "bufReader (snd (handleIncomingPacket loopback ?m1)) = [8]"
    by (simp_all add: established_fields)
  from g5 have g5': "lb_open ((world (established [Inr ?a]))\<lparr>rx_high := 1\<rparr>) ?q = Inl (Foreign ''Replay'')"
    by simp
  from again have again':
    "dropped (world (snd (handleIncomingPacket loopback
        (snd (handleIncomingPacket loopback (established [Inr ?a, Inr ?a])))))) = 1"
    "bufReader (snd (handleIncomingPacket loopback
        (snd (handleIncomingPacket loopback (established [Inr ?a, Inr ?a]))))) = [8]"
    by (simp_all only: first snd_conv)
  from h1 h3 h4 h5 cnt run first g5' again' show ?thesis
    by blast
qed

section \<open>Properties of the multiplexer: the handshake\<close>

text \<open>
  What \<^verbatim>\<open>Reset\<close> does, for every choice of the collaborators: it returns nil exactly
  when the packet it reads after sending its hard reset parses as the server's hard
  reset, and on that path it records the remote session id and then calls \<^verbatim>\<open>SendACK\<close>
  for packet id 0 as its last action, whatever that call returns.
\<close>

lemma Reset_calls_SendACK_0:
  "(fst (Reset P m) = None) =
     (\<exists>resp w2 sid.
        readPacket P (SendHardReset (control m) (session m) (world m)) = (Inr resp, w2) \<and>
        ParseHardReset (control m) resp = Inr sid) \<and>
   (fst (Reset P m) = None \<longrightarrow>
     (\<exists>resp w2 sid.
        readPacket P (SendHardReset (control m) (session m) (world m)) = (Inr resp, w2) \<and>
        ParseHardReset (control m) resp = Inr sid \<and>
        session (snd (Reset P m)) = (session m)\<lparr>RemoteSessionID := sid\<rparr> \<and>
        calls (snd (Reset P m)) = calls m @ [Call_SendHardReset, Call_ParseHardReset, Call_SendACK 0] \<and>
        world (snd (Reset P m)) =
          snd (SendACK (control m) ((session m)\<lparr>RemoteSessionID := sid\<rparr>) 0 w2)))"
  by (auto simp: Reset_def called_def logger_def Let_def split: prod.splits sum.splits)

text \<open>
  Claim C5. In every successful run of \<^verbatim>\<open>Reset\<close> an ACK for packet id 0 should have
  been sent. Here the server's hard reset arrives and is accepted, but the write of the
  ACK fails: \<^verbatim>\<open>SendACK\<close> returns the error, \<^verbatim>\<open>Reset\<close> drops it and returns nil, and the
  only packet on the wire is the client's hard reset.
\<close>

theorem Reset_returns_nil_though_the_ACK_was_not_sent:
  "SendACK lb_control_ack_fails \<lparr>RemoteSessionID = [9, 9, 9, 9, 9, 9, 9, 9], LocalSessionID = [1, 2, 3, 4, 5, 6, 7, 8]\<rparr> 0
     ((peer [] [])\<lparr>net_out := [[0x38, 1, 2, 3, 4, 5, 6, 7, 8]]\<rparr>) =
     (Some (Foreign ''write: broken pipe''), (peer [] [])\<lparr>net_out := [[0x38, 1, 2, 3, 4, 5, 6, 7, 8]]\<rparr>) \<and>
   Reset loopback
     ((newMuxer (peer [Inr [0x40, 9, 9, 9, 9, 9, 9, 9, 9]] []))\<lparr>control := lb_control_ack_fails\<rparr>) =
     (None,
      (newMuxer ((peer [] [])\<lparr>net_out := [[0x38, 1, 2, 3, 4, 5, 6, 7, 8]]\<rparr>))
        \<lparr>control := lb_control_ack_fails,
         session := \<lparr>RemoteSessionID = [9, 9, 9, 9, 9, 9, 9, 9], LocalSessionID = [1, 2, 3, 4, 5, 6, 7, 8]\<rparr>,
         calls := [Call_SendHardReset, Call_ParseHardReset, Call_SendACK 0],
         logs := [Log INFO ''Remote session ID: %x'' [ArgBytes [9, 9, 9, 9, 9, 9, 9, 9]],
                  Log INFO ''Local session ID:  %x'' [ArgBytes [1, 2, 3, 4, 5, 6, 7, 8]]]\<rparr>)"
  by (simp add: Reset_def called_def logger_def Let_def lb_control_ack_fails_def lb_defs)

text \<open>
  Claim C6, as the code has it. Once the TLS handshake is done and the control message
  is sent, two packets are read over TLS. \<^verbatim>\<open>AUTH_FAILED\<close> is looked for in the second
  only, the reply to the push request: if that reply satisfies \<^verbatim>\<open>isBadAuthReply\<close>,
  \<^verbatim>\<open>Handshake\<close> fails with \<^verbatim>\<open>errBadAuth\<close>. The first, read where the server's control
  message is expected, is only tested for the null header: a packet without it makes
  \<^verbatim>\<open>Handshake\<close> fail with \<^verbatim>\<open>errBadControlMessage\<close>, whatever else it bears.
\<close>

theorem AUTH_FAILED_reply_to_push_request:
  assumes "Reset P m = (None, m1)"
    and "initTLS P (session m1) (options m1) (world m1) = (Inr tlsConf, w2)"
    and "NewTLSConn P (session m1) w2 = (Inr tlsConn, w3)"
    and "tlsHandshake P tlsConn tlsConf w3 = (Inr t, w4)"
    and "sendControlMessage P (logger INFO ''TLS handshake done'' [] (m1\<lparr>world := w4, tls := Some t\<rparr>)) =
           (None, m2)"
  shows "(readAndLoadRemoteKey P m2 = (None, m3) \<longrightarrow>
          ActiveKey P (session m3) (world m3) = Inr key0 \<longrightarrow>
          SetupKeys (data m3) key0 (world m3) = (None, w5) \<longrightarrow>
          sendPushRequest P (called (Call_SetupKeys key0) (m3\<lparr>world := w5\<rparr>)) = ((n, None), m4) \<longrightarrow>
          readTLSPacket P m4 = ((resp, None), m5) \<longrightarrow>
          isBadAuthReply P resp \<longrightarrow>
            fst (Handshake P m) = Some errBadAuth) \<and>
         (readTLSPacket P m2 = ((dat, None), m3') \<longrightarrow>
          \<not> isControlMessage P dat \<longrightarrow>
            fst (Handshake P m) = Some (Errorf_w_text errBadControlMessage ''expected null header''))"
proof (intro conjI impI)
  let ?m0 = "logger INFO ''TLS handshake done'' [] (m1\<lparr>world := w4, tls := Some t\<rparr>)"
  have hs: "fst (Handshake P m) = Some e" if "fst (InitDataWithRemoteKey P ?m0) = Some e" for e
    using assms(1-4) that
    by (cases "InitDataWithRemoteKey P ?m0") (simp add: Handshake_def Let_def)
  {
    assume a: "readAndLoadRemoteKey P m2 = (None, m3)"
      "ActiveKey P (session m3) (world m3) = Inr key0"
      "SetupKeys (data m3) key0 (world m3) = (None, w5)"
      "sendPushRequest P (called (Call_SetupKeys key0) (m3\<lparr>world := w5\<rparr>)) = ((n, None), m4)"
      "readTLSPacket P m4 = ((resp, None), m5)"
      "isBadAuthReply P resp"
    have "fst (readPushReply P m4) = Some errBadAuth"
      using a(5,6) by (simp add: readPushReply_def Let_def)
    then have "fst (InitDataWithRemoteKey P ?m0) = Some errBadAuth"
      using assms(5) a(1-4) by (simp add: InitDataWithRemoteKey_def Let_def)
    then show "fst (Handshake P m) = Some errBadAuth"
      by (rule hs)
  }
  {
    assume b: "readTLSPacket P m2 = ((dat, None), m3')" "\<not> isControlMessage P dat"
    have "fst (readAndLoadRemoteKey P m2) =
        Some (Errorf_w_text errBadControlMessage ''expected null header'')"
      using b by (simp add: readAndLoadRemoteKey_def Let_def)
    then have "fst (InitDataWithRemoteKey P ?m0) =
        Some (Errorf_w_text errBadControlMessage ''expected null header'')"
      using assms(5) by (cases "readAndLoadRemoteKey P m2") (simp add: InitDataWithRemoteKey_def)
    then show "fst (Handshake P m) = Some (Errorf_w_text errBadControlMessage ''expected null header'')"
      by (rule hs)
  }
qed

theorem AUTH_FAILED_reply_to_push_request_witness:
  "isBadAuthReply loopback (take 4096 AUTH_FAILED @ replicate (4096 - length AUTH_FAILED) 0) \<and>
   fst (Handshake loopback
          (newMuxer (peer [Inr [0x40, 9, 9, 9, 9, 9, 9, 9, 9]] [[0, 0, 0, 0, 2], AUTH_FAILED]))) =
     Some errBadAuth \<and>
   \<not> isControlMessage loopback (take 4096 PUSH_REPLY @ replicate (4096 - length PUSH_REPLY) 0) \<and>
   fst (Handshake loopback
          (newMuxer (peer [Inr [0x40, 9, 9, 9, 9, 9, 9, 9, 9]] [PUSH_REPLY]))) =
     Some (Errorf_w_text errBadControlMessage ''expected null header'')"
proof -
  have "fst (Handshake loopback
          (newMuxer (peer [Inr [0x40, 9, 9, 9, 9, 9, 9, 9, 9]] [[0, 0, 0, 0, 2], AUTH_FAILED]))) =
     Some errBadAuth"
    apply (rule AUTH_FAILED_reply_to_push_request [THEN conjunct1, rule_format])
              apply (simp add: handshake_defs lb_defs)
             apply (simp add: handshake_defs lb_defs)
            apply (simp add: handshake_defs lb_defs)
           apply (simp add: handshake_defs lb_defs)
          apply (simp add: handshake_defs lb_defs)
         apply (simp add: handshake_defs lb_defs)
        apply (simp add: handshake_defs lb_defs)
       apply (simp add: handshake_defs lb_defs)
      apply (simp add: handshake_defs lb_defs)
     apply (simp add: handshake_defs lb_defs)
    apply (simp add: handshake_defs lb_defs)
    done
  moreover have "isBadAuthReply loopback (take 4096 AUTH_FAILED @ replicate (4096 - length AUTH_FAILED) 0)"
    by (simp add: lb_defs)
  moreover have "fst (Handshake loopback
          (newMuxer (peer [Inr [0x40, 9, 9, 9, 9, 9, 9, 9, 9]] [PUSH_REPLY]))) =
     Some (Errorf_w_text errBadControlMessage ''expected null header'')"
    apply (rule AUTH_FAILED_reply_to_push_request [THEN conjunct2, rule_format])
          apply (simp add: handshake_defs lb_defs)
         apply (simp add: handshake_defs lb_defs)
        apply (simp add: handshake_defs lb_defs)
       apply (simp add: handshake_defs lb_defs)
      apply (simp add: handshake_defs lb_defs)
     apply (simp add: handshake_defs lb_defs)
    apply (simp add: handshake_defs lb_defs)
    done
  moreover have "\<not> isControlMessage loopback (take 4096 PUSH_REPLY @ replicate (4096 - length PUSH_REPLY) 0)"
    by (simp add: lb_defs)
  ultimately show ?thesis
    by blast
qed

text \<open>
  The claim as it was stated fails: the server sends \<^verbatim>\<open>AUTH_FAILED\<close> instead of the
  control message, and \<^verbatim>\<open>Handshake\<close> fails with an error that wraps
  \<^verbatim>\<open>errBadControlMessage\<close>, which is not \<^verbatim>\<open>errBadAuth\<close> for \<^verbatim>\<open>errors.Is\<close>.
\<close>

theorem AUTH_FAILED_in_place_of_control_message:
  "fst (Handshake loopback
          (newMuxer (peer [Inr [0x40, 9, 9, 9, 9, 9, 9, 9, 9]] [AUTH_FAILED]))) =
     Some (Errorf_w_text errBadControlMessage ''expected null header'') \<and>
   \<not> errors_Is (Errorf_w_text errBadControlMessage ''expected null header'') errBadAuth"
  by (simp add: handshake_defs lb_defs)


section \<open>Properties of the multiplexer over the loopback instance: keys before payload\<close>

text \<open>
  \<^verbatim>\<open>Write\<close> itself tests nothing, for every choice of the collaborators: it hands the
  payload to \<^verbatim>\<open>WritePacket\<close> and returns what that returns.
\<close>

lemma Write_delegates:
  "Write P m b =
     (fst (WritePacket (data m) b (world m)),
      m\<lparr>world := snd (WritePacket (data m) b (world m)), calls := calls m @ [Call_WritePacket b]\<rparr>)"
  by (simp add: Write_def called_def split: prod.splits)

lemma is_data_packet_simps:
  "is_data_packet (lb_seal i b)"
  "\<not> is_data_packet (0x38 # xs)"
  "\<not> is_data_packet (0x28 # xs)"
  by (simp_all add: is_data_packet_def lb_seal_def)

lemma lb_inv_start: "lb_inv (newMuxer (peer packets records))"
  by (simp add: lb_inv_def newMuxer_def peer_def)

lemma lb_inv_Write: "lb_inv m \<Longrightarrow> lb_inv (snd (Write loopback m b))"
  by (auto simp: lb_inv_def Write_delegates lb_data_def is_data_packet_simps)

lemma lb_inv_pull: "lb_inv m \<Longrightarrow> lb_inv (snd (handleIncomingPacket loopback m))"
  by (auto simp: lb_inv_def muxer_defs loopback_def lb_readPacket_def lb_data_def lb_open_def
      is_data_packet_simps split: list.splits sum.splits prod.splits if_splits)

lemma lb_inv_pulls: "lb_inv m \<Longrightarrow> lb_inv (pulls loopback k m)"
  by (induction k arbitrary: m) (simp_all add: lb_inv_pull)

lemma lb_inv_bufReader: "lb_inv m \<Longrightarrow> lb_inv (m\<lparr>bufReader := buf\<rparr>)"
  by (simp add: lb_inv_def)

lemma lb_inv_Read:
  assumes "lb_inv m" and "Read loopback m n = Some (r, m')"
  shows "lb_inv m'"
proof -
  from assms(2) obtain mk where mk: "Read_loop loopback m = Some mk"
    by (cases "Read_loop loopback m") (simp_all add: Read_def)
  from Read_loop_Some_D [OF mk] obtain k where
    "mk = snd (handleIncomingPacket loopback (pulls loopback k m))"
    by blast
  with assms(1) have "lb_inv mk"
    by (simp add: lb_inv_pulls lb_inv_pull)
  moreover from assms(2) mk have "\<exists>buf. m' = mk\<lparr>bufReader := buf\<rparr>"
    by (auto simp: Read_def split: prod.splits)
  ultimately show ?thesis
    by (auto simp: lb_inv_bufReader)
qed

lemma lb_inv_Reset: "lb_inv m \<Longrightarrow> lb_inv (snd (Reset loopback m))"
  by (auto simp: lb_inv_def Reset_def called_def logger_def Let_def loopback_def lb_readPacket_def
      lb_control_def is_data_packet_simps split: list.splits sum.splits prod.splits if_splits)

lemma lb_inv_sendControlMessage: "lb_inv m \<Longrightarrow> lb_inv (snd (sendControlMessage loopback m))"
  by (auto simp: lb_inv_def sendControlMessage_def called_def Let_def loopback_def lb_tlsWrite_def
      lb_control_def split: option.splits)

lemma lb_inv_readAndLoadRemoteKey: "lb_inv m \<Longrightarrow> lb_inv (snd (readAndLoadRemoteKey loopback m))"
  by (auto simp: lb_inv_def readAndLoadRemoteKey_def readTLSPacket_def called_def logger_def Let_def
      loopback_def lb_tlsRead_def lb_control_def split: option.splits list.splits)

lemma lb_inv_sendPushRequest: "lb_inv m \<Longrightarrow> lb_inv (snd (sendPushRequest loopback m))"
  by (auto simp: lb_inv_def sendPushRequest_def called_def Let_def loopback_def lb_tlsWrite_def
      split: option.splits)

lemma lb_inv_readPushReply: "lb_inv m \<Longrightarrow> lb_inv (snd (readPushReply loopback m))"
  by (auto simp: lb_inv_def readPushReply_def readTLSPacket_def called_def logger_def Let_def
      loopback_def lb_tlsRead_def split: option.splits list.splits)

lemma lb_inv_SetupKeys:
  assumes "lb_inv m"
  shows "lb_inv (called (Call_SetupKeys (active_slot (world m)))
                   (m\<lparr>world := snd (SetupKeys (data m) (active_slot (world m)) (world m))\<rparr>))"
  using assms by (auto simp: lb_inv_def called_def lb_data_def)

lemma lb_inv_InitDataWithRemoteKey:
  assumes "lb_inv m"
  shows "lb_inv (snd (InitDataWithRemoteKey loopback m))"
proof -
  obtain r1 m1 where s1: "sendControlMessage loopback m = (r1, m1)"
    by (cases "sendControlMessage loopback m")
  have i1: "lb_inv m1"
    using lb_inv_sendControlMessage [OF assms] s1 by simp
  obtain r2 m2 where s2: "readAndLoadRemoteKey loopback m1 = (r2, m2)"
    by (cases "readAndLoadRemoteKey loopback m1")
  have i2: "lb_inv m2"
    using lb_inv_readAndLoadRemoteKey [OF i1] s2 by simp
  let ?k = "active_slot (world m2)"
  let ?m3 = "called (Call_SetupKeys ?k) (m2\<lparr>world := snd (SetupKeys (data m2) ?k (world m2))\<rparr>)"
  have i3: "lb_inv ?m3"
    using i2 by (rule lb_inv_SetupKeys)
  obtain r4 m4 where s4: "sendPushRequest loopback ?m3 = (r4, m4)"
    by (cases "sendPushRequest loopback ?m3")
  have i4: "lb_inv m4"
    using lb_inv_sendPushRequest [OF i3] s4 by simp
  have i5: "lb_inv (snd (readPushReply loopback m4))"
    using i4 by (rule lb_inv_readPushReply)
  have k: "ActiveKey loopback (session m2) (world m2) = Inr ?k"
    by (simp add: loopback_def)
  show ?thesis
  proof (cases r1)
    case (Some e)
    with s1 i1 show ?thesis
      by (simp add: InitDataWithRemoteKey_def)
  next
    case None
    note n1 = this
    show ?thesis
    proof (cases r2)
      case (Some e)
      with s1 n1 s2 i2 show ?thesis
        by (simp add: InitDataWithRemoteKey_def)
    next
      case None
      note n2 = this
      obtain e3 w3 where s3: "SetupKeys (data m2) ?k (world m2) = (e3, w3)"
        by (cases "SetupKeys (data m2) ?k (world m2)")
      show ?thesis
      proof (cases e3)
        case (Some e)
        with s1 n1 s2 n2 k s3 i3 show ?thesis
          by (simp add: InitDataWithRemoteKey_def)
      next
        case None
        with s1 n1 s2 n2 k s3 s4 i4 i5 show ?thesis
          by (cases r4; cases "snd r4") (simp_all add: InitDataWithRemoteKey_def)
      qed
    qed
  qed
qed

lemma lb_inv_Handshake:
  assumes "lb_inv m"
  shows "lb_inv (snd (Handshake loopback m))"
proof -
  obtain r1 m1 where s1: "Reset loopback m = (r1, m1)"
    by (cases "Reset loopback m")
  have i1: "lb_inv m1"
    using lb_inv_Reset [OF assms] s1 by simp
  let ?m5 = "logger INFO ''TLS handshake done'' [] (m1\<lparr>tls := Some 0\<rparr>)"
  have i5: "lb_inv ?m5"
    using i1 by (simp add: lb_inv_def logger_def)
  obtain r6 m6 where s6: "InitDataWithRemoteKey loopback ?m5 = (r6, m6)"
    by (cases "InitDataWithRemoteKey loopback ?m5")
  have i6: "lb_inv m6"
    using lb_inv_InitDataWithRemoteKey [OF i5] s6 by simp
  then have i7: "lb_inv (logger INFO ''VPN handshake done'' [] m6)"
    by (simp add: lb_inv_def logger_def)
  have tls_steps: "initTLS loopback s opt w = (Inr 0, w)" "NewTLSConn loopback s w = (Inr 0, w)"
    "tlsHandshake loopback c f w = (Inr 0, w)" for s opt w c f
    by (simp_all add: loopback_def)
  show ?thesis
    using s1 i1 s6 i6 i7
    by (cases r1; cases r6) (simp_all add: Handshake_def tls_steps)
qed

lemma reachable_lb_inv: "reachable m \<Longrightarrow> lb_inv m"
proof (induction rule: reachable.induct)
  case (by_start packets records)
  show ?case by (rule lb_inv_start)
next
  case (by_handshake m)
  then show ?case by (simp add: lb_inv_Handshake)
next
  case (by_reset m)
  then show ?case by (simp add: lb_inv_Reset)
next
  case (by_init_data m)
  then show ?case by (simp add: lb_inv_InitDataWithRemoteKey)
next
  case (by_write m b)
  then show ?case by (simp add: lb_inv_Write)
next
  case (by_pull m)
  then show ?case by (simp add: lb_inv_pull)
next
  case (by_read m n r m')
  then show ?case by (blast intro: lb_inv_Read)
qed

text \<open>
  Claim C7. In every state the multiplexer can reach, a data packet is on the wire only
  if the key schedule has produced the directional states and the active key slot holds
  both KeySources. In particular a \<^verbatim>\<open>Write\<close> made before the keys are ready
  transmits nothing and returns an error.
\<close>

theorem no_data_payload_before_the_keys:
  assumes "reachable m"
  shows "((\<exists>pkt \<in> set (net_out (world m)). is_data_packet pkt) \<longrightarrow>
            keys_ready (world m) \<and>
            active_slot (world m) \<in> set (local_in (world m)) \<and>
            active_slot (world m) \<in> set (remote_in (world m))) \<and>
         (\<not> keys_ready (world m) \<longrightarrow>
            net_out (world (snd (Write loopback m b))) = net_out (world m) \<and>
            snd (fst (Write loopback m b)) \<noteq> None)"
proof -
  from assms have i: "lb_inv m"
    by (rule reachable_lb_inv)
  then have "data m = lb_data"
    by (simp add: lb_inv_def)
  then have "\<not> keys_ready (world m) \<longrightarrow>
            net_out (world (snd (Write loopback m b))) = net_out (world m) \<and>
            snd (fst (Write loopback m b)) \<noteq> None"
    by (simp add: Write_delegates lb_data_def)
  with i show ?thesis
    by (auto simp: lb_inv_def)
qed

theorem no_data_payload_before_the_keys_witness:
  "reachable (snd (Write loopback (established []) [7, 7, 7])) \<and>
   net_out (world (snd (Write loopback (established []) [7, 7, 7]))) =
     net_out (world (established [])) @ [lb_seal 1 [7, 7, 7]] \<and>
   is_data_packet (lb_seal 1 [7, 7, 7]) \<and>
   keys_ready (world (snd (Write loopback (established []) [7, 7, 7]))) \<and>
   active_slot (world (snd (Write loopback (established []) [7, 7, 7]))) \<in>
     set (local_in (world (snd (Write loopback (established []) [7, 7, 7])))) \<and>
   active_slot (world (snd (Write loopback (established []) [7, 7, 7]))) \<in>
     set (remote_in (world (snd (Write loopback (established []) [7, 7, 7])))) \<and>
   reachable (newMuxer (peer [] [])) \<and>
   \<not> keys_ready (world (newMuxer (peer [] []))) \<and>
   Write loopback (newMuxer (peer [] [])) [7, 7, 7] =
     ((0, Some (Foreign ''data channel not ready'')),
      (newMuxer (peer [] []))\<lparr>calls := [Call_WritePacket [7, 7, 7]]\<rparr>)"
proof -
  let ?m = "snd (Write loopback (established []) [7, 7, 7])"
  have "reachable (established [])"
    unfolding established_def by (intro reachable.by_handshake reachable.by_start)
  then have r: "reachable ?m"
    by (rule reachable.by_write)
  have out: "net_out (world ?m) = net_out (world (established [])) @ [lb_seal 1 [7, 7, 7]]"
    by (simp add: Write_delegates established_eq lb_data_def)
  have d: "is_data_packet (lb_seal 1 [7, 7, 7])"
    by (rule is_data_packet_simps)
  from out d have "\<exists>pkt \<in> set (net_out (world ?m)). is_data_packet pkt"
    by simp
  with no_data_payload_before_the_keys [OF r]
  have k: "keys_ready (world ?m)" "active_slot (world ?m) \<in> set (local_in (world ?m))"
    "active_slot (world ?m) \<in> set (remote_in (world ?m))"
    by blast+
  have r0: "reachable (newMuxer (peer [] []))"
    by (rule reachable.by_start)
  have nk: "\<not> keys_ready (world (newMuxer (peer [] [])))"
    by (simp add: newMuxer_def peer_def)
  have w0: "Write loopback (newMuxer (peer [] [])) [7, 7, 7] =
     ((0, Some (Foreign ''data channel not ready'')),
      (newMuxer (peer [] []))\<lparr>calls := [Call_WritePacket [7, 7, 7]]\<rparr>)"
    by (simp add: Write_delegates newMuxer_def peer_def lb_data_def)
  from r out d k r0 nk w0 show ?thesis
    by blast
qed

end
